theory Spec2Isabelle
  imports Main "HOL-Library.Word"
begin

section \<open>Data model\<close>

text \<open>
  Go strings and byte slices are both sequences of bytes; both are modelled as
  \<open>char list\<close> (a HOL \<open>char\<close> is one byte). A cookie that is a nil slice and one
  that is an empty slice are the same list \<open>[]\<close>: the code only ever takes \<open>len\<close>
  of a cookie. Where the code returns a nil pointer, a nil interface or, for the token
  of a SASL bind, a nil slice, the model returns \<open>None\<close>.
\<close>

type_synonym bytes = string

subsection \<open>Controls\<close>

text \<open>
  The \<open>Control\<close> interface of the package. The two directory-synchronisation
  controls carry the fields that \<open>SearchWithDirSync\<close> reads and writes
  (\<open>Flags\<close>, \<open>Cookie\<close>, \<open>MoreResults\<close>); \<open>ControlString\<close> is the generic
  control, an object identifier of the caller's or the server's choice with an opaque
  value, and stands for every other implementation of the interface.
\<close>

datatype control =
    ControlMicrosoftDirSync (Flags: "32 word") (Cookie: bytes)
  | ControlMicrosoftDirSyncResponse (MoreResults: int) (Cookie: bytes)
  | ControlString (ControlType: string) (Criticality: bool) (ControlValue: string)

subsection \<open>Errors\<close>

text \<open>
  Go \<open>error\<close> values. \<open>Error c m\<close> is the package's \<open>*Error\<close> as \<open>NewError\<close>
  builds it from a result code and \<open>errors.New(m)\<close>; \<open>ErrorString m\<close> is a bare
  \<open>errors.New(m)\<close>; the two \<open>Errorf\<close> constructors are \<open>fmt.Errorf\<close> with its
  format string and its one argument (the formatting itself is not modelled).
\<close>

datatype error =
    Error (ResultCode: "8 word") (Err: string)
  | ErrorString string
  | ErrorfControl string control
  | ErrorfError string error

text \<open>A call either returns or panics (a failed type assertion, a nil dereference).\<close>

datatype 'a outcome = Return 'a | Panic

subsection \<open>BER packets\<close>

text \<open>
  The packet tree of the BER library: class, primitive or constructed, tag, the decoded
  Go value, the content bytes (the library allocates the buffer of every packet it
  builds or decodes), the children (Go pointers, which may be nil) and the description.
  A value is nil, an \<open>int\<close>, an \<open>int64\<close>, a string or a boolean: a type
  assertion on a packet's value tells them apart.
\<close>

datatype ber_Class = ClassUniversal | ClassApplication | ClassContext | ClassPrivate

datatype ber_Type = TypePrimitive | TypeConstructed

datatype ber_Value = VNil | VInt int | VInt64 int | VString string | VBool bool

datatype packet =
  Packet (ClassType: ber_Class) (TagType: ber_Type) (Tag: nat) (Value: ber_Value)
         (Data: bytes) (Children: "packet option list") (Description: string)

definition TagInteger :: nat where
  "TagInteger = 2"

definition TagOctetString :: nat where
  "TagOctetString = 4"

definition TagSequence :: nat where
  "TagSequence = 16"

subsection \<open>What the sources use and do not declare\<close>

text \<open>
  The constants and the package-level helpers that the modelled functions use and whose
  declarations are not among the sources are parameters of the model: every theorem
  holds for all their values.
  \<^item> the application tag of a bind request, the three client-side result codes, the
    object identifier of the directory-synchronisation control, and the scope and
    alias-dereferencing constants of a search;
  \<^item> of the BER library, the content encoding of an integer and the encoding of a whole
    packet (\<open>Bytes\<close>);
  \<^item> \<open>encodeControls\<close>, \<open>DecodeControl\<close>, \<open>GetLDAPError\<close> and
    \<open>addLDAPDescriptions\<close>. \<open>addLDAPDescriptions\<close> rewrites its packet in place and
    may fail: it yields the error or the packet it leaves.
\<close>

record env =
  ApplicationBindRequest :: nat
  ErrorNetwork :: "8 word"
  ErrorUnexpectedResponse :: "8 word"
  ErrorEmptyPassword :: "8 word"
  ControlTypeMicrosoftDirSync :: string
  ScopeBaseObject :: int
  NeverDerefAliases :: int
  encodeInteger :: "int \<Rightarrow> bytes"
  Bytes :: "packet \<Rightarrow> bytes"
  encodeControls :: "control list \<Rightarrow> packet"
  DecodeControl :: "packet option \<Rightarrow> error + control"
  GetLDAPError :: "packet \<Rightarrow> error option"
  addLDAPDescriptions :: "packet option \<Rightarrow> error + packet option"

text \<open>
  Modelled from the spec: \<open>NewError\<close> is not among the sources; an error that
  carries a result code and the text of the wrapped \<open>errors.New\<close>.
\<close>

definition NewError :: "8 word \<Rightarrow> string \<Rightarrow> error" where
  "NewError resultCode msg = Error resultCode msg"

text \<open>
  Modelled from the spec: \<open>GetControlType\<close> is not among the sources; a control is
  identified by its object identifier, and both directory-synchronisation controls
  (the request's and the response's) carry the directory-synchronisation identifier.
\<close>

fun GetControlType :: "env \<Rightarrow> control \<Rightarrow> string" where
  "GetControlType K (ControlMicrosoftDirSync fl ck) = ControlTypeMicrosoftDirSync K"
| "GetControlType K (ControlMicrosoftDirSyncResponse m ck) = ControlTypeMicrosoftDirSync K"
| "GetControlType K (ControlString t cr v) = t"

text \<open>
  Modelled from the spec: \<open>FindControl\<close> is not among the sources; the first control
  of the list that has the given object identifier, nil when there is none. A control
  is a Go pointer: the model returns the position in the list with the value, so that a
  later write through the pointer is a write at that position.
\<close>

fun FindControl :: "env \<Rightarrow> control list \<Rightarrow> string \<Rightarrow> (nat \<times> control) option" where
  "FindControl K [] t = None"
| "FindControl K (c # cs) t =
     (if GetControlType K c = t then Some (0, c)
      else (case FindControl K cs t of None \<Rightarrow> None | Some (i, d) \<Rightarrow> Some (Suc i, d)))"

text \<open>
  Modelled from the spec: \<open>NewControlMicrosoftDirSync\<close> and \<open>SetCookie\<close> are not
  among the sources; a fresh request control (its flags and cookie are overwritten
  before they are read) and the cookie's setter.
\<close>

definition NewControlMicrosoftDirSync :: control where
  "NewControlMicrosoftDirSync = ControlMicrosoftDirSync 0 []"

fun SetCookie :: "control \<Rightarrow> bytes \<Rightarrow> control" where
  "SetCookie (ControlMicrosoftDirSync fl ck) cookie = ControlMicrosoftDirSync fl cookie"
| "SetCookie c cookie = c"

fun SetFlags :: "control \<Rightarrow> 32 word \<Rightarrow> control" where
  "SetFlags (ControlMicrosoftDirSync fl ck) flags = ControlMicrosoftDirSync flags ck"
| "SetFlags c flags = c"

subsection \<open>Search requests and results\<close>

text \<open>
  The \<open>Controls\<close> fields of the four structs are told apart by a suffix
  (\<open>Controls\<close> of a search request, \<open>Controls_res\<close> of a search result,
  \<open>Controls_bind\<close> of a bind request, \<open>Controls_bound\<close> of a bind result).
\<close>

record entry =
  DN :: string
  EntryAttributes :: "(string \<times> string list) list"

record search_request =
  BaseDN :: string
  Scope :: int
  DerefAliases :: int
  SizeLimit :: int
  TimeLimit :: int
  TypesOnly :: bool
  Filter :: string
  Attributes :: "string list"
  Controls :: "control list"

record search_result =
  Entries :: "entry list"
  Referrals :: "string list"
  Controls_res :: "control list"

text \<open>
  \<open>Conn.Search\<close> is not among the sources: it is a parameter, a function of the
  request and the connection's state that returns Go's pair of a result pointer and an
  error, with the new state.
\<close>

type_synonym 'c search_fn =
  "search_request \<Rightarrow> 'c \<Rightarrow> (search_result option \<times> error option) \<times> 'c"

section \<open>Directory synchronisation\<close>

text \<open>
  The three \<open>range\<close> loops of a round append the round's entries, referrals and
  controls to the accumulated result, one element at a time and in order.
\<close>

definition append_result :: "search_result \<Rightarrow> search_result \<Rightarrow> search_result" where
  "append_result searchResult result =
     searchResult
       \<lparr>Entries := Entries searchResult @ Entries result,
        Referrals := Referrals searchResult @ Referrals result,
        Controls_res := Controls_res searchResult @ Controls_res result\<rparr>"

text \<open>
  \<open>dirSyncControl\<close> points into \<open>searchRequest.Controls\<close>: it is the position
  \<open>i\<close> of the control there, and a write through the pointer is a write at that
  position of the request's list.
\<close>

definition SetCookie_at :: "nat \<Rightarrow> search_request \<Rightarrow> bytes \<Rightarrow> search_request" where
  "SetCookie_at i searchRequest cookie =
     searchRequest\<lparr>Controls :=
       (Controls searchRequest)[i := SetCookie (Controls searchRequest ! i) cookie]\<rparr>"

definition SetFlags_at :: "nat \<Rightarrow> search_request \<Rightarrow> 32 word \<Rightarrow> search_request" where
  "SetFlags_at i searchRequest flags =
     searchRequest\<lparr>Controls :=
       (Controls searchRequest)[i := SetFlags (Controls searchRequest ! i) flags]\<rparr>"

text \<open>
  The loop of \<open>SearchWithDirSync\<close> has no bound of its own: it runs until the
  server's answer stops it, so the model is a partial function and \<open>None\<close> is a run
  that never returns. The result is Go's triple, with the request and the connection
  as the call leaves them. The type assertion on the response's control is unchecked:
  on any other control it panics.
\<close>

type_synonym 'c dirsync_result =
  "(search_result option \<times> bytes \<times> error option) outcome \<times> search_request \<times> 'c"

partial_function (option) dirsync_loop ::
  "env \<Rightarrow> 'c search_fn \<Rightarrow> nat \<Rightarrow> search_request \<Rightarrow> search_result \<Rightarrow> 'c
     \<Rightarrow> 'c dirsync_result option" where
  "dirsync_loop K search i searchRequest searchResult l =
     (case search searchRequest l of
        ((result, err), l') \<Rightarrow>
          (case err of
             Some e \<Rightarrow> Some (Return (Some searchResult, [], Some e), searchRequest, l')
           | None \<Rightarrow>
               (case result of
                  None \<Rightarrow>
                    Some (Return (Some searchResult, [],
                            Some (NewError (ErrorNetwork K) ''ldap: packet not received'')),
                          searchRequest, l')
                | Some r \<Rightarrow>
                    (let searchResult' = append_result searchResult r
                     in case FindControl K (Controls_res r) (ControlTypeMicrosoftDirSync K) of
                          None \<Rightarrow>
                            Some (Return (Some searchResult', [],
                                    Some (NewError (ErrorNetwork K)
                                            ''ldap: response is missing DirSync control'')),
                                  searchRequest, l')
                        | Some (j, dirSyncResult) \<Rightarrow>
                            (case dirSyncResult of
                               ControlMicrosoftDirSyncResponse moreResults newCookie \<Rightarrow>
                                 if length newCookie = 0 then
                                   Some (Return (Some searchResult', [],
                                           Some (NewError (ErrorNetwork K)
                                                   ''ldap: empty cookie in DirSync control response'')),
                                         searchRequest, l')
                                 else if moreResults = 0 then
                                   Some (Return (Some searchResult', newCookie, None),
                                         searchRequest, l')
                                 else
                                   dirsync_loop K search i
                                     (SetCookie_at i searchRequest newCookie) searchResult' l'
                             | _ \<Rightarrow> Some (Panic, searchRequest, l'))))))"

definition new_SearchResult :: search_result where
  "new_SearchResult = \<lparr>Entries = [], Referrals = [], Controls_res = []\<rparr>"

text \<open>
  \<open>SearchWithDirSync\<close>: find the request's directory-synchronisation control or
  append a fresh one, with a checked type assertion on a control that was found; set
  its cookie and flags; run the loop on an empty result.
\<close>

definition SearchWithDirSync ::
  "env \<Rightarrow> 'c search_fn \<Rightarrow> search_request \<Rightarrow> bytes \<Rightarrow> 32 word \<Rightarrow> 'c
     \<Rightarrow> 'c dirsync_result option" where
  "SearchWithDirSync K search searchRequest cookie flags l =
     (case FindControl K (Controls searchRequest) (ControlTypeMicrosoftDirSync K) of
        None \<Rightarrow>
          (let i = length (Controls searchRequest);
               searchRequest' = searchRequest
                 \<lparr>Controls := Controls searchRequest @ [NewControlMicrosoftDirSync]\<rparr>
           in dirsync_loop K search i
                (SetFlags_at i (SetCookie_at i searchRequest' cookie) flags)
                new_SearchResult l)
      | Some (i, control) \<Rightarrow>
          (case control of
             ControlMicrosoftDirSync fl ck \<Rightarrow>
               dirsync_loop K search i
                 (SetFlags_at i (SetCookie_at i searchRequest cookie) flags)
                 new_SearchResult l
           | _ \<Rightarrow>
               Some (Return (None, [],
                       Some (ErrorfControl
                         ''expected dirSync control to be of type *ControlMicrosoftDirSync, got %v''
                         control)),
                     searchRequest, l)))"

section \<open>A stub server\<close>

text \<open>
  Modelled from the spec: the stub server of the testable properties. Its state is the
  script of the outcomes it still has to give and the requests it has received; it
  answers each search with the next outcome of the script and, out of script, with
  neither a result nor an error.
\<close>

type_synonym stub = "(search_result option \<times> error option) list \<times> search_request list"

definition stub_Search :: "stub search_fn" where
  "stub_Search searchRequest l =
     (case fst l of
        [] \<Rightarrow> ((None, None), ([], snd l @ [searchRequest]))
      | x # xs \<Rightarrow> (x, (xs, snd l @ [searchRequest])))"

section \<open>The root DSE\<close>

text \<open>
  Modelled from the spec: \<open>NewSearchRequest\<close> is not among the sources; it stores
  its arguments in the request (base, scope, dereference policy, size and time limits,
  types-only, filter, requested attributes, controls).
\<close>

definition NewSearchRequest ::
  "string \<Rightarrow> int \<Rightarrow> int \<Rightarrow> int \<Rightarrow> int \<Rightarrow> bool \<Rightarrow> string \<Rightarrow> string list \<Rightarrow> control list
     \<Rightarrow> search_request" where
  "NewSearchRequest baseDN scope derefAliases sizeLimit timeLimit typesOnly filterStr attributes controls =
     \<lparr>BaseDN = baseDN, Scope = scope, DerefAliases = derefAliases, SizeLimit = sizeLimit,
      TimeLimit = timeLimit, TypesOnly = typesOnly, Filter = filterStr,
      Attributes = attributes, Controls = controls\<rparr>"

text \<open>
  \<open>RootDSE\<close>. A search that returns neither an error nor a result makes
  \<open>res.Entries\<close> a nil dereference.
\<close>

definition RootDSE ::
  "env \<Rightarrow> 'c search_fn \<Rightarrow> string list \<Rightarrow> 'c \<Rightarrow> (entry option \<times> error option) outcome \<times> 'c" where
  "RootDSE K Search fields0 conn =
     (let fields1 = (if length fields0 = 0 then [] else fields0);
          search = NewSearchRequest [] (ScopeBaseObject K) (NeverDerefAliases K) 0 0 False
                     ''(objectclass=*)'' fields1 []
      in case Search search conn of
           ((res, err), conn') \<Rightarrow>
             (case err of
                Some e \<Rightarrow> (Return (None, Some e), conn')
              | None \<Rightarrow>
                  (case res of
                     None \<Rightarrow> (Panic, conn')
                   | Some r \<Rightarrow>
                       if length (Entries r) \<noteq> 1
                       then (Return (None, Some (ErrorString ''Cannot get RootDSE'')), conn')
                       else (Return (Some (Entries r ! 0), None), conn'))))"

section \<open>Binding\<close>

subsection \<open>Building packets\<close>

text \<open>
  The constructors of the BER library as the bind operations call them:
  \<open>ber.Encode\<close> at a nil value (an empty packet), \<open>ber.NewInteger\<close> and
  \<open>ber.NewString\<close> (the value and its content bytes), and \<open>AppendChild\<close>, which
  adds the child and writes the child's encoding to the parent's content.
\<close>

definition Encode :: "ber_Class \<Rightarrow> ber_Type \<Rightarrow> nat \<Rightarrow> string \<Rightarrow> packet" where
  "Encode classType tagType tag description =
     Packet classType tagType tag VNil [] [] description"

definition NewInteger ::
  "env \<Rightarrow> ber_Class \<Rightarrow> ber_Type \<Rightarrow> nat \<Rightarrow> ber_Value \<Rightarrow> string \<Rightarrow> packet" where
  "NewInteger K classType tagType tag v description =
     Packet classType tagType tag v
       (case v of VInt n \<Rightarrow> encodeInteger K n | VInt64 n \<Rightarrow> encodeInteger K n | _ \<Rightarrow> [])
       [] description"

definition NewString :: "ber_Class \<Rightarrow> ber_Type \<Rightarrow> nat \<Rightarrow> string \<Rightarrow> string \<Rightarrow> packet" where
  "NewString classType tagType tag v description =
     Packet classType tagType tag (VString v) v [] description"

definition AppendChild :: "env \<Rightarrow> packet \<Rightarrow> packet \<Rightarrow> packet" where
  "AppendChild K p child =
     Packet (ClassType p) (TagType p) (Tag p) (Value p)
       (Data p @ Bytes K child) (Children p @ [Some child]) (Description p)"

subsection \<open>Simple bind\<close>

record SimpleBindRequest =
  Username :: string
  Password :: string
  Controls_bind :: "control list"
  AllowEmptyPassword :: bool

record SimpleBindResult =
  Controls_bound :: "control list"

definition NewSimpleBindRequest :: "string \<Rightarrow> string \<Rightarrow> control list \<Rightarrow> SimpleBindRequest" where
  "NewSimpleBindRequest username password controls =
     \<lparr>Username = username, Password = password, Controls_bind = controls,
      AllowEmptyPassword = False\<rparr>"

text \<open>
  \<open>appendTo\<close> writes the bind request into the envelope it is given and returns
  no error; the model returns the error with the envelope as the call leaves it.
\<close>

definition appendTo :: "env \<Rightarrow> SimpleBindRequest \<Rightarrow> packet \<Rightarrow> error option \<times> packet" where
  "appendTo K req envelope =
     (let pkt0 = Encode ClassApplication TypeConstructed (ApplicationBindRequest K) ''Bind Request'';
          pkt1 = AppendChild K pkt0
                   (NewInteger K ClassUniversal TypePrimitive TagInteger (VInt 3) ''Version'');
          pkt2 = AppendChild K pkt1
                   (NewString ClassUniversal TypePrimitive TagOctetString (Username req) ''User Name'');
          pkt = AppendChild K pkt2
                   (NewString ClassContext TypePrimitive 0 (Password req) ''Password'');
          envelope1 = AppendChild K envelope pkt;
          envelope2 = (if length (Controls_bind req) > 0
                       then AppendChild K envelope1 (encodeControls K (Controls_bind req))
                       else envelope1)
      in (None, envelope2))"

text \<open>
  The connection is not among the sources. Its operations are parameters: functions of
  the connection's state \<open>'c\<close>, with message contexts of type \<open>'m\<close>.
  \<^item> \<open>doRequest\<close> is given the request's \<open>appendTo\<close> and returns a message context
    or an error; \<open>readPacket\<close> returns an error or the pointer to the response's
    packet, which the types allow to be nil;
    \<open>finishMessage\<close> is the deferred call that ends every path after a message
    context was obtained, a panic included;
  \<^item> \<open>nextMessageID\<close> and \<open>sendMessage\<close>, which \<open>SASLBind\<close> calls itself;
    \<open>responses\<close> is the receive from the context's channel followed by
    \<open>ReadPacket\<close>: \<open>None\<close> when the channel is closed, else the packet pointer and
    the error that \<open>ReadPacket\<close> returns;
  \<^item> \<open>Debug\<close> reads the connection's debugging flag. Printing is not modelled.
\<close>

record ('c, 'm) conn_ops =
  doRequest :: "(packet \<Rightarrow> error option \<times> packet) \<Rightarrow> 'c \<Rightarrow> (error + 'm) \<times> 'c"
  readPacket :: "'m \<Rightarrow> 'c \<Rightarrow> (error + packet option) \<times> 'c"
  finishMessage :: "'m \<Rightarrow> 'c \<Rightarrow> 'c"
  nextMessageID :: "'c \<Rightarrow> int \<times> 'c"
  sendMessage :: "packet \<Rightarrow> 'c \<Rightarrow> (error + 'm) \<times> 'c"
  responses :: "'m \<Rightarrow> 'c \<Rightarrow> (packet option \<times> error option) option \<times> 'c"
  Debug :: "'c \<Rightarrow> bool"

text \<open>
  The loop of \<open>SimpleBind\<close> over the children of the controls section: the first
  control that fails to decode ends the call.
\<close>

fun decodeChildren :: "env \<Rightarrow> packet option list \<Rightarrow> control list \<Rightarrow> error + control list" where
  "decodeChildren K [] controls = Inr controls"
| "decodeChildren K (child # children) controls =
     (case DecodeControl K child of
        Inl decodeErr \<Rightarrow> Inl (ErrorfError ''failed to decode child control: %s'' decodeErr)
      | Inr decodedChild \<Rightarrow> decodeChildren K children (controls @ [decodedChild]))"

definition SimpleBind ::
  "env \<Rightarrow> ('c, 'm) conn_ops \<Rightarrow> SimpleBindRequest \<Rightarrow> 'c
     \<Rightarrow> (SimpleBindResult option \<times> error option) outcome \<times> 'c" where
  "SimpleBind K ops simpleBindRequest l =
     (if Password simpleBindRequest = [] \<and> \<not> AllowEmptyPassword simpleBindRequest
      then (Return (None, Some (NewError (ErrorEmptyPassword K)
                                  ''ldap: empty password not allowed by the client'')), l)
      else
        (case doRequest ops (appendTo K simpleBindRequest) l of
           (Inl err, l1) \<Rightarrow> (Return (None, Some err), l1)
         | (Inr msgCtx, l1) \<Rightarrow>
             (case readPacket ops msgCtx l1 of
                (Inl err, l2) \<Rightarrow> (Return (None, Some err), finishMessage ops msgCtx l2)
              | (Inr None, l2) \<Rightarrow> (Panic, finishMessage ops msgCtx l2)
              | (Inr (Some packet), l2) \<Rightarrow>
                  (if length (Children packet) = 3 then
                     (case Children packet ! 2 of
                        None \<Rightarrow> (Panic, finishMessage ops msgCtx l2)
                      | Some sect \<Rightarrow>
                          (case decodeChildren K (Children sect) [] of
                             Inl e \<Rightarrow> (Return (None, Some e), finishMessage ops msgCtx l2)
                           | Inr controls \<Rightarrow>
                               (Return (Some \<lparr>Controls_bound = controls\<rparr>, GetLDAPError K packet),
                                finishMessage ops msgCtx l2)))
                   else
                     (Return (Some \<lparr>Controls_bound = []\<rparr>, GetLDAPError K packet),
                      finishMessage ops msgCtx l2)))))"

subsection \<open>SASL bind\<close>

text \<open>
  \<open>Bytes\<close> of a \<open>bytes.Buffer\<close>, as \<open>getSASLBindResultCode\<close> calls it on the
  content of the token's packet: the content as a slice, which is the nil slice when
  the buffer holds nothing.
\<close>

definition Buffer_Bytes :: "bytes \<Rightarrow> bytes option" where
  "Buffer_Bytes content = (if content = [] then None else Some content)"

text \<open>
  \<open>getSASLBindResultCode\<close>. The result code is converted from \<open>int64\<close> to
  \<open>uint8\<close>, which keeps its low eight bits. The type assertions on the values of the
  first and third child are unchecked, and so are the children themselves: a value of
  another type and a nil child panic. A nil token is \<open>None\<close>: the token is nil
  when there is no fourth child and when the fourth child has no content.
\<close>

definition getSASLBindResultCode ::
  "env \<Rightarrow> packet option \<Rightarrow> (8 word \<times> bytes option \<times> string) outcome" where
  "getSASLBindResultCode K packet =
     (case packet of
        None \<Rightarrow> Return (ErrorUnexpectedResponse K, None, ''Empty packet'')
      | Some p \<Rightarrow>
          if length (Children p) \<ge> 2 then
            (case Children p ! 1 of
               None \<Rightarrow> Return (ErrorUnexpectedResponse K, None, ''Empty response in packet'')
             | Some response \<Rightarrow>
                 if ClassType response = ClassApplication \<and> TagType response = TypeConstructed
                    \<and> length (Children response) \<ge> 3
                 then
                   (case Children response ! 0 of
                      None \<Rightarrow> Panic
                    | Some c0 \<Rightarrow>
                        (case Value c0 of
                           VInt64 n \<Rightarrow>
                             (case Children response ! 2 of
                                None \<Rightarrow> Panic
                              | Some c2 \<Rightarrow>
                                  (case Value c2 of
                                     VString description \<Rightarrow>
                                       if length (Children response) \<ge> 4 then
                                         (case Children response ! 3 of
                                            None \<Rightarrow> Panic
                                          | Some responseToken \<Rightarrow>
                                              Return (word_of_int n,
                                                      Buffer_Bytes (Data responseToken),
                                                      description))
                                       else Return (word_of_int n, None, description)
                                   | _ \<Rightarrow> Panic))
                         | _ \<Rightarrow> Panic))
                 else Return (ErrorNetwork K, None, ''Invalid packet format''))
          else Return (ErrorNetwork K, None, ''Invalid packet format''))"

text \<open>
  The request packet that \<open>SASLBind\<close> builds before it sends it: the envelope
  with the message ID and the bind request, which names version 3, an empty name and
  the credentials under context tag 3 (the mechanism and the credential bytes).
\<close>

definition SASLBind_packet :: "env \<Rightarrow> int \<Rightarrow> string \<Rightarrow> bytes \<Rightarrow> packet" where
  "SASLBind_packet K messageID mechanism credentials =
     (let packet0 = Encode ClassUniversal TypeConstructed TagSequence ''LDAP Request'';
          packet1 = AppendChild K packet0
                      (NewInteger K ClassUniversal TypePrimitive TagInteger
                         (VInt64 messageID) ''MessageID'');
          bindRequest0 = Encode ClassApplication TypeConstructed (ApplicationBindRequest K)
                           ''Bind Request'';
          bindRequest1 = AppendChild K bindRequest0
                           (NewInteger K ClassUniversal TypePrimitive TagInteger (VInt 3)
                              ''Version'');
          bindRequest2 = AppendChild K bindRequest1
                           (NewString ClassUniversal TypePrimitive TagOctetString [] ''Name'');
          saslCreds0 = Encode ClassContext TypeConstructed 3 ''SaslCredentials'';
          saslCreds1 = AppendChild K saslCreds0
                         (NewString ClassUniversal TypePrimitive TagOctetString mechanism
                            ''Mechanism'');
          saslCreds = AppendChild K saslCreds1
                        (NewString ClassUniversal TypePrimitive TagOctetString credentials
                           ''Credentials'');
          bindRequest = AppendChild K bindRequest2 saslCreds
      in AppendChild K packet1 bindRequest)"

definition SASLBind ::
  "env \<Rightarrow> ('c, 'm) conn_ops \<Rightarrow> string \<Rightarrow> bytes \<Rightarrow> 'c
     \<Rightarrow> (bytes option \<times> error option) outcome \<times> 'c" where
  "SASLBind K ops mechanism credentials l =
     (case nextMessageID ops l of
        (messageID, l0) \<Rightarrow>
          (let packet = SASLBind_packet K messageID mechanism credentials
           in case sendMessage ops packet l0 of
                (Inl err, l1) \<Rightarrow> (Return (None, Some err), l1)
              | (Inr msgCtx, l1) \<Rightarrow>
                  (case responses ops msgCtx l1 of
                     (None, l2) \<Rightarrow>
                       (Return (None, Some (NewError (ErrorNetwork K)
                                              ''ldap: response channel closed'')),
                        finishMessage ops msgCtx l2)
                   | (Some (response, err), l2) \<Rightarrow>
                       (case err of
                          Some e \<Rightarrow> (Return (None, Some e), finishMessage ops msgCtx l2)
                        | None \<Rightarrow>
                            (case (if Debug ops l2 then addLDAPDescriptions K response
                                   else Inr response) of
                               Inl e \<Rightarrow> (Return (None, Some e), finishMessage ops msgCtx l2)
                             | Inr response' \<Rightarrow>
                                 (case getSASLBindResultCode K response' of
                                    Panic \<Rightarrow> (Panic, finishMessage ops msgCtx l2)
                                  | Return (resultCode, resultToken, resultDescription) \<Rightarrow>
                                      if resultCode \<noteq> 0
                                      then (Return (None, Some (NewError resultCode resultDescription)),
                                            finishMessage ops msgCtx l2)
                                      else (Return (resultToken, None),
                                            finishMessage ops msgCtx l2)))))))"

section \<open>Stub servers and an instance of the parameters\<close>

text \<open>
  Modelled from the spec: \<open>GetLDAPError\<close> is not among the sources. The response
  is the second child of the envelope and carries the result code, the matched DN and
  the diagnostic message; code 0 is success, any other value becomes a result-code
  error carrying the server's diagnostic text. An envelope of another shape is an error
  of its own.
\<close>

definition response_result :: "packet \<Rightarrow> (int \<times> string) option" where
  "response_result packet =
     (if length (Children packet) \<ge> 2 then
        (case Children packet ! 1 of
           None \<Rightarrow> None
         | Some response \<Rightarrow>
             if length (Children response) \<ge> 3 then
               (case (Children response ! 0, Children response ! 2) of
                  (Some c0, Some c2) \<Rightarrow>
                    (case (Value c0, Value c2) of
                       (VInt64 n, VString diagnostic) \<Rightarrow> Some (n, diagnostic)
                     | _ \<Rightarrow> None)
                | _ \<Rightarrow> None)
             else None)
      else None)"

definition GetLDAPError_spec :: "env \<Rightarrow> packet \<Rightarrow> error option" where
  "GetLDAPError_spec K packet =
     (case response_result packet of
        None \<Rightarrow> Some (Error (ErrorNetwork K) ''Invalid packet format'')
      | Some (n, diagnostic) \<Rightarrow>
          if n = 0 then None else Some (Error (word_of_int n) diagnostic))"

text \<open>
  Modelled from the spec: a stub connection. It holds the message-ID counter, which
  every submitted request increments, the envelopes written to the transport, the
  responses the server will give, the message contexts that were finished and the
  debugging flag. A message context is its message ID.
\<close>

record stub_conn =
  counter :: int
  written :: "packet list"
  inbox :: "(error + packet) list"
  finished :: "int list"
  debugging :: bool

definition stub_ops :: "env \<Rightarrow> (stub_conn, int) conn_ops" where
  "stub_ops K =
     \<lparr>doRequest = (\<lambda>append l.
        (let messageID = counter l + 1;
             envelope = AppendChild K
                          (Encode ClassUniversal TypeConstructed TagSequence ''LDAP Request'')
                          (NewInteger K ClassUniversal TypePrimitive TagInteger
                             (VInt64 messageID) ''MessageID'')
         in case append envelope of
              (Some e, envelope') \<Rightarrow> (Inl e, l\<lparr>counter := messageID\<rparr>)
            | (None, envelope') \<Rightarrow>
                (Inr messageID, l\<lparr>counter := messageID, written := written l @ [envelope']\<rparr>))),
      readPacket = (\<lambda>msgCtx l.
        (case inbox l of
           [] \<Rightarrow> (Inl (NewError (ErrorNetwork K) ''ldap: response channel closed''), l)
         | Inl e # xs \<Rightarrow> (Inl e, l\<lparr>inbox := xs\<rparr>)
         | Inr p # xs \<Rightarrow> (Inr (Some p), l\<lparr>inbox := xs\<rparr>))),
      finishMessage = (\<lambda>msgCtx l. l\<lparr>finished := finished l @ [msgCtx]\<rparr>),
      nextMessageID = (\<lambda>l. (counter l + 1, l\<lparr>counter := counter l + 1\<rparr>)),
      sendMessage = (\<lambda>packet l. (Inr (counter l), l\<lparr>written := written l @ [packet]\<rparr>)),
      responses = (\<lambda>msgCtx l.
        (case inbox l of
           [] \<Rightarrow> (None, l)
         | Inl e # xs \<Rightarrow> (Some (None, Some e), l\<lparr>inbox := xs\<rparr>)
         | Inr p # xs \<Rightarrow> (Some (Some p, None), l\<lparr>inbox := xs\<rparr>))),
      Debug = debugging\<rparr>"

definition new_stub_conn :: "(error + packet) list \<Rightarrow> stub_conn" where
  "new_stub_conn replies =
     \<lparr>counter = 0, written = [], inbox = replies, finished = [], debugging = False\<rparr>"

text \<open>
  An instance of the parameters, to run the model on concrete inputs: the numbers of
  LDAP for the bind request's tag, the base-object scope and the never-dereference
  policy, three result codes above the server's range, the object identifier of the
  directory-synchronisation control, a one-byte integer content, a short-form packet
  encoding, controls encoded as a context-tagged sequence of their identifiers and
  decoded back as generic controls.
\<close>

definition example_Bytes :: "packet \<Rightarrow> bytes" where
  "example_Bytes p =
     char_of ((case ClassType p of ClassUniversal \<Rightarrow> 0 | ClassApplication \<Rightarrow> 64
               | ClassContext \<Rightarrow> 128 | ClassPrivate \<Rightarrow> 192)
              + (case TagType p of TypePrimitive \<Rightarrow> 0 | TypeConstructed \<Rightarrow> 32) + Tag p)
       # char_of (length (Data p)) # Data p"

definition example_DecodeControl :: "packet option \<Rightarrow> error + control" where
  "example_DecodeControl child =
     (case child of
        None \<Rightarrow> Inl (ErrorString ''nil control'')
      | Some p \<Rightarrow>
          (case Value p of
             VString t \<Rightarrow> Inr (ControlString t False [])
           | _ \<Rightarrow> Inl (ErrorString ''control without an identifier'')))"

definition example_consts :: env where
  "example_consts =
     \<lparr>ApplicationBindRequest = 0, ErrorNetwork = 200, ErrorUnexpectedResponse = 205,
      ErrorEmptyPassword = 206, ControlTypeMicrosoftDirSync = ''1.2.840.113556.1.4.841'',
      ScopeBaseObject = 0, NeverDerefAliases = 0,
      encodeInteger = (\<lambda>n. [char_of n]), Bytes = example_Bytes,
      encodeControls = (\<lambda>controls. Encode ClassContext TypeConstructed 0 ''Controls''),
      DecodeControl = example_DecodeControl,
      GetLDAPError = (\<lambda>packet. None),
      addLDAPDescriptions = Inr\<rparr>"

definition example_env :: env where
  "example_env =
     example_consts
       \<lparr>encodeControls := (\<lambda>controls.
          foldl (\<lambda>p c. AppendChild example_consts p
                   (NewString ClassUniversal TypePrimitive TagOctetString
                      (GetControlType example_consts c) ''Control Type''))
            (Encode ClassContext TypeConstructed 0 ''Controls'') controls),
        GetLDAPError := GetLDAPError_spec example_consts\<rparr>"

section \<open>Stating the properties of a directory-synchronisation exchange\<close>

text \<open>
  What a round's result says to the loop: the more-results indicator and the cookie of
  the first control under the directory-synchronisation identifier, when that control
  is a response control.
\<close>

definition sync_response :: "env \<Rightarrow> search_result \<Rightarrow> (int \<times> bytes) option" where
  "sync_response K r =
     (case FindControl K (Controls_res r) (ControlTypeMicrosoftDirSync K) of
        Some (j, ControlMicrosoftDirSyncResponse m ck) \<Rightarrow> Some (m, ck)
      | _ \<Rightarrow> None)"

definition round_cookie :: "env \<Rightarrow> search_result \<Rightarrow> bytes" where
  "round_cookie K r = (case sync_response K r of Some (m, ck) \<Rightarrow> ck | None \<Rightarrow> [])"

text \<open>A round that asks for another: more results and a cookie to continue with.\<close>

definition more_round :: "env \<Rightarrow> search_result \<Rightarrow> bool" where
  "more_round K r =
     (case sync_response K r of Some (m, ck) \<Rightarrow> m \<noteq> 0 \<and> ck \<noteq> [] | None \<Rightarrow> False)"

text \<open>A round that ends the exchange: no more results, and a cookie to keep.\<close>

definition last_round :: "env \<Rightarrow> search_result \<Rightarrow> bool" where
  "last_round K r =
     (case sync_response K r of Some (m, ck) \<Rightarrow> m = 0 \<and> ck \<noteq> [] | None \<Rightarrow> False)"

text \<open>
  A request that \<open>SearchWithDirSync\<close> accepts: it has no control under the
  directory-synchronisation identifier, or the first such control is a request control.
\<close>

definition request_ok :: "env \<Rightarrow> search_request \<Rightarrow> bool" where
  "request_ok K searchRequest =
     (case FindControl K (Controls searchRequest) (ControlTypeMicrosoftDirSync K) of
        None \<Rightarrow> True
      | Some (i, ControlMicrosoftDirSync fl ck) \<Rightarrow> True
      | Some (i, c) \<Rightarrow> False)"

text \<open>
  The request of a round, said as the spec says it: the caller's request with the
  directory-synchronisation control upserted, carrying the flags and the cookie.
\<close>

definition dirsync_request :: "env \<Rightarrow> search_request \<Rightarrow> bytes \<Rightarrow> 32 word \<Rightarrow> search_request" where
  "dirsync_request K searchRequest cookie flags =
     (case FindControl K (Controls searchRequest) (ControlTypeMicrosoftDirSync K) of
        None \<Rightarrow>
          searchRequest\<lparr>Controls :=
            Controls searchRequest @ [ControlMicrosoftDirSync flags cookie]\<rparr>
      | Some (i, c) \<Rightarrow>
          searchRequest\<lparr>Controls :=
            (Controls searchRequest)[i := ControlMicrosoftDirSync flags cookie]\<rparr>)"

text \<open>The accumulated result of a list of rounds, and a round's successful outcome.\<close>

definition accumulated :: "search_result list \<Rightarrow> search_result" where
  "accumulated rs = foldl append_result new_SearchResult rs"

definition answer :: "search_result \<Rightarrow> search_result option \<times> error option" where
  "answer r = (Some r, None)"

text \<open>
  A search function serves a list of requests and outcomes from one state of the
  connection to another when, asked the requests one after the other, it gives the
  outcomes and leaves the connection in the second state.
\<close>

fun serves ::
  "'c search_fn \<Rightarrow> (search_request \<times> (search_result option \<times> error option)) list \<Rightarrow> 'c \<Rightarrow> 'c
     \<Rightarrow> bool" where
  "serves search [] l l' = (l = l')"
| "serves search ((q, x) # qs) l l' =
     (fst (search q l) = x \<and> serves search qs (snd (search q l)) l')"

text \<open>
  The exchange in which the rounds \<open>rs\<close> are answered and the outcome \<open>x\<close> comes
  last, as a list of requests and outcomes: the first request carries the caller's
  cookie, each later one the cookie of the round before it.
\<close>

definition exchange ::
  "env \<Rightarrow> search_request \<Rightarrow> 32 word \<Rightarrow> bytes \<Rightarrow> search_result list
     \<Rightarrow> search_result option \<times> error option
     \<Rightarrow> (search_request \<times> (search_result option \<times> error option)) list" where
  "exchange K searchRequest flags cookie rs x =
     zip (map (\<lambda>ck. dirsync_request K searchRequest ck flags) (cookie # map (round_cookie K) rs))
         (map answer rs @ [x])"

text \<open>
  The fixed shape of a SASL bind response, said as the spec says it: the second child
  of the envelope is the response, an application-class constructed packet that holds
  the result-code integer, the matched DN, the diagnostic message and, optionally, the
  server's credentials token, read here as the content of the fourth child. The
  reading is \<open>None\<close> for an envelope of another shape.
\<close>

definition sasl_response :: "packet \<Rightarrow> (int \<times> string \<times> bytes option) option" where
  "sasl_response p =
     (if length (Children p) \<ge> 2 then
        (case Children p ! 1 of
           None \<Rightarrow> None
         | Some response \<Rightarrow>
             if ClassType response = ClassApplication \<and> TagType response = TypeConstructed
                \<and> length (Children response) \<ge> 3
             then
               (case (Children response ! 0, Children response ! 2) of
                  (Some c0, Some c2) \<Rightarrow>
                    (case (Value c0, Value c2) of
                       (VInt64 n, VString diagnostic) \<Rightarrow>
                         if length (Children response) \<ge> 4 then
                           (case Children response ! 3 of
                              None \<Rightarrow> None
                            | Some t \<Rightarrow> Some (n, diagnostic, Some (Data t)))
                         else Some (n, diagnostic, None)
                     | _ \<Rightarrow> None)
                | _ \<Rightarrow> None)
             else None)
      else None)"

text \<open>A response envelope for the examples: result code, diagnostic message, token.\<close>

definition example_response :: "int \<Rightarrow> string \<Rightarrow> bytes option \<Rightarrow> packet" where
  "example_response n diagnostic token =
     Packet ClassUniversal TypeConstructed TagSequence VNil []
       [Some (Packet ClassUniversal TypePrimitive TagInteger (VInt64 1) [] [] ''MessageID''),
        Some (Packet ClassApplication TypeConstructed 1 VNil []
                ([Some (Packet ClassUniversal TypePrimitive 10 (VInt64 n) [] [] ''resultCode''),
                  Some (Packet ClassUniversal TypePrimitive TagOctetString (VString [])
                          [] [] ''matchedDN''),
                  Some (Packet ClassUniversal TypePrimitive TagOctetString (VString diagnostic)
                          diagnostic [] ''diagnosticMessage'')]
                 @ (case token of
                      None \<Rightarrow> []
                    | Some t \<Rightarrow> [Some (Packet ClassContext TypePrimitive 7 VNil t []
                                          ''serverSaslCreds'')]))
                ''Bind Response'')]
       ''LDAP Response''"

text \<open>
  The same envelope with a controls section as its third child, a control's packet as
  the example decoder reads it, a packet that the example decoder refuses, and a bind
  request that opts into an empty password.
\<close>

definition with_controls :: "packet \<Rightarrow> packet option list \<Rightarrow> packet" where
  "with_controls p children =
     Packet (ClassType p) (TagType p) (Tag p) (Value p) (Data p)
       (Children p @ [Some (Packet ClassContext TypeConstructed 0 VNil [] children ''Controls'')])
       (Description p)"

definition example_control :: "string \<Rightarrow> packet option" where
  "example_control t =
     Some (Packet ClassUniversal TypePrimitive TagOctetString (VString t) t [] ''Control Type'')"

definition example_undecodable :: "packet option" where
  "example_undecodable =
     Some (Packet ClassUniversal TypeConstructed TagSequence VNil [] [] ''Control'')"

definition example_bind :: SimpleBindRequest where
  "example_bind =
     \<lparr>Username = ''cn=admin,dc=example,dc=com'', Password = [], Controls_bind = [],
      AllowEmptyPassword = True\<rparr>"

text \<open>
  Modelled from the spec: the taxonomy of failures, read off an error of the code by
  its result code. The code's \<open>ErrorNetwork\<close> is the network failure,
  \<open>ErrorEmptyPassword\<close> the client's misuse, \<open>ErrorUnexpectedResponse\<close> the
  malformed response, and any other result code is the server's. No result code that
  the sources use stands for a protocol violation.
\<close>

datatype failure =
  NetworkError | ProtocolFormatError | ResultCodeError | ClientMisuseError | ProtocolViolationError

definition failure_of :: "env \<Rightarrow> 8 word \<Rightarrow> failure" where
  "failure_of K resultCode =
     (if resultCode = ErrorNetwork K then NetworkError
      else if resultCode = ErrorEmptyPassword K then ClientMisuseError
      else if resultCode = ErrorUnexpectedResponse K then ProtocolFormatError
      else ResultCodeError)"

text \<open>A request, entries and rounds to run the exchange on.\<close>

definition example_request :: search_request where
  "example_request =
     NewSearchRequest ''dc=example,dc=com'' 2 0 0 0 False ''(objectclass=*)'' [''cn''] []"

definition example_entry :: "string \<Rightarrow> entry" where
  "example_entry dn = \<lparr>DN = dn, EntryAttributes = []\<rparr>"

definition example_round :: "string \<Rightarrow> control list \<Rightarrow> search_result" where
  "example_round dn controls =
     \<lparr>Entries = [example_entry dn], Referrals = [], Controls_res = controls\<rparr>"

section \<open>Properties of the directory-synchronisation exchange\<close>

lemma FindControl_Some:
  "FindControl K cs t = Some (i, c) \<Longrightarrow> i < length cs \<and> cs ! i = c \<and> GetControlType K c = t"
proof (induction cs arbitrary: i)
  case Nil
  then show ?case by simp
next
  case (Cons a cs)
  then show ?case
    by (auto split: if_splits option.splits)
qed

lemma FindControl_update:
  "FindControl K cs t = Some (i, c) \<Longrightarrow> GetControlType K c' = t
     \<Longrightarrow> FindControl K (cs[i := c']) t = Some (i, c')"
proof (induction cs arbitrary: i)
  case Nil
  then show ?case by simp
next
  case (Cons a cs)
  then show ?case
    by (auto split: if_splits option.splits)
qed

lemma FindControl_append:
  "FindControl K cs t = None \<Longrightarrow> GetControlType K c' = t
     \<Longrightarrow> FindControl K (cs @ [c']) t = Some (length cs, c')"
  by (induction cs) (auto split: if_splits option.splits)

lemma SetCookie_at_twice:
  "SetCookie_at i (SetCookie_at i req a) b = SetCookie_at i req b"
proof (cases "i < length (Controls req)")
  case True
  then show ?thesis
    by (cases "Controls req ! i") (simp_all add: SetCookie_at_def)
next
  case False
  then show ?thesis by (simp add: SetCookie_at_def list_update_beyond)
qed

text \<open>One round of the loop, for any search function.\<close>

lemma dirsync_loop_error:
  "search req l = ((res, Some e), l')
     \<Longrightarrow> dirsync_loop K search i req acc l = Some (Return (Some acc, [], Some e), req, l')"
  by (subst dirsync_loop.simps) simp

lemma dirsync_loop_nil:
  "search req l = ((None, None), l')
     \<Longrightarrow> dirsync_loop K search i req acc l =
         Some (Return (Some acc, [],
                 Some (Error (ErrorNetwork K) ''ldap: packet not received'')), req, l')"
  by (subst dirsync_loop.simps) (simp add: NewError_def)

lemma dirsync_loop_missing:
  "search req l = ((Some r, None), l')
     \<Longrightarrow> FindControl K (Controls_res r) (ControlTypeMicrosoftDirSync K) = None
     \<Longrightarrow> dirsync_loop K search i req acc l =
         Some (Return (Some (append_result acc r), [],
                 Some (Error (ErrorNetwork K) ''ldap: response is missing DirSync control'')),
               req, l')"
  by (subst dirsync_loop.simps) (simp add: NewError_def)

lemma dirsync_loop_empty_cookie:
  "search req l = ((Some r, None), l')
     \<Longrightarrow> sync_response K r = Some (m, [])
     \<Longrightarrow> dirsync_loop K search i req acc l =
         Some (Return (Some (append_result acc r), [],
                 Some (Error (ErrorNetwork K) ''ldap: empty cookie in DirSync control response'')),
               req, l')"
  by (subst dirsync_loop.simps)
    (auto simp: NewError_def sync_response_def split: option.splits control.splits)

lemma dirsync_loop_last:
  "search req l = ((Some r, None), l')
     \<Longrightarrow> last_round K r
     \<Longrightarrow> dirsync_loop K search i req acc l =
         Some (Return (Some (append_result acc r), round_cookie K r, None), req, l')"
  by (subst dirsync_loop.simps)
    (auto simp: last_round_def round_cookie_def sync_response_def
      split: option.splits control.splits)

lemma dirsync_loop_more:
  "search req l = ((Some r, None), l')
     \<Longrightarrow> more_round K r
     \<Longrightarrow> dirsync_loop K search i req acc l =
         dirsync_loop K search i (SetCookie_at i req (round_cookie K r)) (append_result acc r) l'"
  by (subst dirsync_loop.simps)
    (auto simp: more_round_def round_cookie_def sync_response_def
      split: option.splits control.splits)

lemma dirsync_loop_panic:
  "search req l = ((Some r, None), l')
     \<Longrightarrow> FindControl K (Controls_res r) (ControlTypeMicrosoftDirSync K) = Some (j, c)
     \<Longrightarrow> (case c of ControlMicrosoftDirSyncResponse m ck \<Rightarrow> False | _ \<Rightarrow> True)
     \<Longrightarrow> dirsync_loop K search i req acc l = Some (Panic, req, l')"
  by (subst dirsync_loop.simps) (cases c; simp add: Let_def)

text \<open>Serving a list of requests, and the stub server, which serves any script.\<close>

lemma serves_append:
  "serves search (as @ bs) l l'' \<longleftrightarrow> (\<exists>l'. serves search as l l' \<and> serves search bs l' l'')"
  by (induction as arbitrary: l) auto

lemma stub_Search_Cons: "stub_Search req (x # rest, log) = (x, (rest, log @ [req]))"
  by (simp add: stub_Search_def)

lemma serves_stub_Search:
  "length qs = length xs
     \<Longrightarrow> serves stub_Search (zip qs xs) (xs @ rest, log) (rest, log @ qs)"
proof (induction qs xs arbitrary: log rule: list_induct2)
  case Nil
  then show ?case by simp
next
  case (Cons q qs x xs)
  from Cons.IH [of "log @ [q]"] show ?case
    by (simp add: stub_Search_Cons)
qed

lemma exchange_stub_Search:
  "serves stub_Search (exchange K req flags cookie rs x) (map answer rs @ x # rest, log)
     (rest, log @ map (\<lambda>ck. dirsync_request K req ck flags) (cookie # map (round_cookie K) rs))"
  using serves_stub_Search [of "map (\<lambda>ck. dirsync_request K req ck flags)
      (cookie # map (round_cookie K) rs)" "map answer rs @ [x]" rest log]
  by (simp add: exchange_def)

text \<open>The rounds that ask for another.\<close>

lemma dirsync_loop_rounds:
  assumes "list_all (more_round K) rs"
    and "serves search
           (zip (map (SetCookie_at i req) (butlast (ck # map (round_cookie K) rs)))
                (map answer rs)) l l'"
  shows "dirsync_loop K search i (SetCookie_at i req ck) acc l =
         dirsync_loop K search i
           (SetCookie_at i req (last (ck # map (round_cookie K) rs)))
           (foldl append_result acc rs) l'"
  using assms
proof (induction rs arbitrary: ck acc l)
  case Nil
  then show ?case by simp
next
  case (Cons r rs)
  have "zip (map (SetCookie_at i req) (butlast (ck # map (round_cookie K) (r # rs))))
            (map answer (r # rs)) =
        (SetCookie_at i req ck, answer r) #
        zip (map (SetCookie_at i req) (butlast (round_cookie K r # map (round_cookie K) rs)))
            (map answer rs)"
    by simp
  with Cons.prems(2) have "fst (search (SetCookie_at i req ck) l) = answer r"
    and rest: "serves search
           (zip (map (SetCookie_at i req) (butlast (round_cookie K r # map (round_cookie K) rs)))
                (map answer rs)) (snd (search (SetCookie_at i req ck) l)) l'"
    by (simp_all only: serves.simps)
  then have first: "search (SetCookie_at i req ck) l =
      ((Some r, None), snd (search (SetCookie_at i req ck) l))"
    by (simp add: answer_def prod_eq_iff)
  from Cons.prems(1) have more: "more_round K r" "list_all (more_round K) rs"
    by simp_all
  have "dirsync_loop K search i (SetCookie_at i req ck) acc l =
        dirsync_loop K search i (SetCookie_at i req (round_cookie K r)) (append_result acc r)
          (snd (search (SetCookie_at i req ck) l))"
    using dirsync_loop_more [where search = search and req = "SetCookie_at i req ck" and l = l,
        OF first more(1), of i acc]
    by (simp add: SetCookie_at_twice)
  also have "\<dots> = dirsync_loop K search i
           (SetCookie_at i req (last (round_cookie K r # map (round_cookie K) rs)))
           (foldl append_result (append_result acc r) rs) l'"
    by (rule Cons.IH [OF more(2) rest])
  finally show ?case by simp
qed

text \<open>The request side: the control is found or appended, then written at its position.\<close>

lemma SearchWithDirSync_start:
  assumes "request_ok K req"
  shows "\<exists>i. (\<forall>cookie flags.
             SearchWithDirSync K search req cookie flags l =
             dirsync_loop K search i (dirsync_request K req cookie flags) new_SearchResult l)
           \<and> (\<forall>a b flags. SetCookie_at i (dirsync_request K req a flags) b =
                             dirsync_request K req b flags)"
proof (cases "FindControl K (Controls req) (ControlTypeMicrosoftDirSync K)")
  case None
  then show ?thesis
    by (intro exI [of _ "length (Controls req)"])
      (simp add: SearchWithDirSync_def dirsync_request_def SetCookie_at_def SetFlags_at_def
        NewControlMicrosoftDirSync_def Let_def)
next
  case (Some p)
  obtain i c where p: "p = (i, c)" by (cases p)
  from assms Some p obtain fl ck where c: "c = ControlMicrosoftDirSync fl ck"
    by (cases c) (simp_all add: request_ok_def)
  from FindControl_Some [of K "Controls req" _ i c] Some p
  have i: "i < length (Controls req)" "Controls req ! i = c" by simp_all
  show ?thesis
    using Some p c i
    by (intro exI [of _ i])
      (simp add: SearchWithDirSync_def dirsync_request_def SetCookie_at_def SetFlags_at_def)
qed

lemma dirsync_request_carries:
  assumes "request_ok K req"
  shows "\<exists>i. FindControl K (Controls (dirsync_request K req ck flags))
                (ControlTypeMicrosoftDirSync K) = Some (i, ControlMicrosoftDirSync flags ck)"
proof (cases "FindControl K (Controls req) (ControlTypeMicrosoftDirSync K)")
  case None
  then show ?thesis
    by (simp add: dirsync_request_def FindControl_append)
next
  case (Some p)
  obtain i c where p: "p = (i, c)" by (cases p)
  show ?thesis
    using Some p by (simp add: dirsync_request_def FindControl_update)
qed

text \<open>
  An exchange: the rounds that ask for another, then the outcome that ends the call in
  one step of the loop.
\<close>

lemma SearchWithDirSync_exchange:
  assumes "request_ok K req" and "list_all (more_round K) rs"
    and "serves search (exchange K req flags cookie rs x) l l'"
    and "\<And>i q acc l1. fst (search q l1) = x
           \<Longrightarrow> dirsync_loop K search i q acc l1 = Some (out acc, q, snd (search q l1))"
  shows "SearchWithDirSync K search req cookie flags l =
         Some (out (accumulated rs),
               dirsync_request K req (last (cookie # map (round_cookie K) rs)) flags, l')"
proof -
  let ?f = "\<lambda>ck. dirsync_request K req ck flags"
  let ?cs = "cookie # map (round_cookie K) rs"
  from SearchWithDirSync_start [OF assms(1), of search l] obtain i where
    start: "SearchWithDirSync K search req cookie flags l =
             dirsync_loop K search i (?f cookie) new_SearchResult l"
    and again: "\<And>a b flags. SetCookie_at i (dirsync_request K req a flags) b =
                             dirsync_request K req b flags"
    by blast
  have fn: "SetCookie_at i (?f cookie) = ?f"
    by (rule ext) (rule again)
  have "map ?f ?cs = map ?f (butlast ?cs) @ [?f (last ?cs)]"
    using append_butlast_last_id [of ?cs] map_append [of ?f "butlast ?cs" "[last ?cs]"]
    by simp
  then have "exchange K req flags cookie rs x =
      zip (map ?f (butlast ?cs)) (map answer rs) @ [(?f (last ?cs), x)]"
    by (simp add: exchange_def)
  with assms(3) obtain l1 where
    rounds: "serves search (zip (map ?f (butlast ?cs)) (map answer rs)) l l1"
    and final: "fst (search (?f (last ?cs)) l1) = x" "snd (search (?f (last ?cs)) l1) = l'"
    by (auto simp: serves_append)
  have "SearchWithDirSync K search req cookie flags l =
        dirsync_loop K search i (SetCookie_at i (?f cookie) cookie) new_SearchResult l"
    by (simp only: start again)
  also have "\<dots> =
        dirsync_loop K search i (SetCookie_at i (?f cookie) (last ?cs))
          (foldl append_result new_SearchResult rs) l1"
    using rounds by (intro dirsync_loop_rounds [OF assms(2)]) (simp only: fn)
  also have "\<dots> = dirsync_loop K search i (?f (last ?cs)) (accumulated rs) l1"
    by (simp only: again accumulated_def)
  also have "\<dots> = Some (out (accumulated rs), ?f (last ?cs), l')"
    using assms(4) [OF final(1)] final(2) by simp
  finally show ?thesis .
qed


lemma SearchWithDirSync_stub_exchange:
  assumes "request_ok K req" and "list_all (more_round K) rs"
    and "\<And>i q acc l1. fst (stub_Search q l1) = x
           \<Longrightarrow> dirsync_loop K stub_Search i q acc l1 = Some (out acc, q, snd (stub_Search q l1))"
  shows "SearchWithDirSync K stub_Search req cookie flags (map answer rs @ x # rest, log) =
         Some (out (accumulated rs),
               dirsync_request K req (last (cookie # map (round_cookie K) rs)) flags,
               (rest, log @ map (\<lambda>ck. dirsync_request K req ck flags)
                              (cookie # map (round_cookie K) rs)))"
  by (rule SearchWithDirSync_exchange [OF assms(1,2) exchange_stub_Search assms(3)])

lemma search_outcome:
  "fst (search q l1) = (res, err) \<Longrightarrow> search q l1 = ((res, err), snd (search q l1))"
  by (simp add: prod_eq_iff)

lemma accumulated_snoc: "accumulated (rs @ [r]) = append_result (accumulated rs) r"
  by (simp add: accumulated_def)

text \<open>
  Claim C3, as amended. Take a search function that, asked one request per round,
  answers a run of rounds that each have a non-zero more-results indicator and a
  non-empty cookie and then a round with a zero indicator and a non-empty cookie,
  where the first request carries the caller's cookie and each later request the
  cookie of the round before. Then \<open>SearchWithDirSync\<close> returns after the last
  round with the results of all rounds, no error and exactly the cookie of the last
  round. Against the stub server these requests are the ones it receives, and nothing
  of the script beyond the last round is used. The request of a round carries its
  cookie in the directory-synchronisation control.
\<close>

theorem SearchWithDirSync_rounds:
  assumes "request_ok K req" and "list_all (more_round K) rs" and "last_round K final"
    and "serves search (exchange K req flags cookie rs (answer final)) l l'"
  shows "SearchWithDirSync K search req cookie flags l =
           Some (Return (Some (accumulated (rs @ [final])), round_cookie K final, None),
                 dirsync_request K req (last (cookie # map (round_cookie K) rs)) flags, l')
         \<and> SearchWithDirSync K stub_Search req cookie flags
             (map answer rs @ answer final # rest, log) =
           Some (Return (Some (accumulated (rs @ [final])), round_cookie K final, None),
                 dirsync_request K req (last (cookie # map (round_cookie K) rs)) flags,
                 (rest, log @ map (\<lambda>ck. dirsync_request K req ck flags)
                                (cookie # map (round_cookie K) rs)))
         \<and> (\<forall>ck. \<exists>i. FindControl K (Controls (dirsync_request K req ck flags))
                         (ControlTypeMicrosoftDirSync K) =
                       Some (i, ControlMicrosoftDirSync flags ck))"
proof (intro conjI)
  have step: "dirsync_loop K search i q acc l1 =
      Some (Return (Some (append_result acc final), round_cookie K final, None),
            q, snd (search q l1))"
    if "fst (search q l1) = answer final" for search :: "'x search_fn" and i q acc l1
    using that by (intro dirsync_loop_last [OF _ assms(3)]) (simp add: answer_def prod_eq_iff)
  show "SearchWithDirSync K search req cookie flags l =
           Some (Return (Some (accumulated (rs @ [final])), round_cookie K final, None),
                 dirsync_request K req (last (cookie # map (round_cookie K) rs)) flags, l')"
    using SearchWithDirSync_exchange [OF assms(1,2,4),
        where out = "\<lambda>acc. Return (Some (append_result acc final), round_cookie K final, None)",
        OF step]
    by (simp add: accumulated_snoc)
  show "SearchWithDirSync K stub_Search req cookie flags
             (map answer rs @ answer final # rest, log) =
           Some (Return (Some (accumulated (rs @ [final])), round_cookie K final, None),
                 dirsync_request K req (last (cookie # map (round_cookie K) rs)) flags,
                 (rest, log @ map (\<lambda>ck. dirsync_request K req ck flags)
                                (cookie # map (round_cookie K) rs)))"
    using SearchWithDirSync_exchange [OF assms(1,2) exchange_stub_Search,
        where out = "\<lambda>acc. Return (Some (append_result acc final), round_cookie K final, None)",
        OF step]
    by (simp add: accumulated_snoc)
  show "\<forall>ck. \<exists>i. FindControl K (Controls (dirsync_request K req ck flags))
                         (ControlTypeMicrosoftDirSync K) =
                       Some (i, ControlMicrosoftDirSync flags ck)"
    using dirsync_request_carries [OF assms(1)] by blast
qed


text \<open>The example instance on the example rounds.\<close>

lemma example_env_consts [simp]:
  "ApplicationBindRequest example_env = 0"
  "ErrorNetwork example_env = 200"
  "ErrorUnexpectedResponse example_env = 205"
  "ErrorEmptyPassword example_env = 206"
  "ControlTypeMicrosoftDirSync example_env = ''1.2.840.113556.1.4.841''"
  "ScopeBaseObject example_env = 0"
  "NeverDerefAliases example_env = 0"
  by (simp_all add: example_env_def example_consts_def)

lemma example_round_sel [simp]:
  "Entries (example_round dn cs) = [example_entry dn]"
  "Referrals (example_round dn cs) = []"
  "Controls_res (example_round dn cs) = cs"
  by (simp_all add: example_round_def)

lemma example_sync_response [simp]:
  "sync_response example_env (example_round dn [ControlMicrosoftDirSyncResponse m ck]) = Some (m, ck)"
  by (simp add: sync_response_def)

lemma example_round_cookie [simp]:
  "round_cookie example_env (example_round dn [ControlMicrosoftDirSyncResponse m ck]) = ck"
  by (simp add: round_cookie_def)

lemma example_request_ok [simp]: "request_ok example_env example_request"
  by (simp add: request_ok_def example_request_def NewSearchRequest_def)

lemma example_dirsync_request [simp]:
  "dirsync_request example_env example_request ck flags =
     example_request\<lparr>Controls := [ControlMicrosoftDirSync flags ck]\<rparr>"
  by (simp add: dirsync_request_def example_request_def NewSearchRequest_def)

lemma example_accumulated [simp]:
  "accumulated [] = \<lparr>Entries = [], Referrals = [], Controls_res = []\<rparr>"
  "accumulated [example_round dn cs] = example_round dn cs"
  "accumulated [example_round dn cs, example_round dn' cs'] =
     \<lparr>Entries = [example_entry dn, example_entry dn'], Referrals = [],
      Controls_res = cs @ cs'\<rparr>"
  by (simp_all add: accumulated_def append_result_def new_SearchResult_def example_round_def)

theorem SearchWithDirSync_rounds_witness:
  "request_ok example_env example_request
   \<and> list_all (more_round example_env)
        [example_round ''cn=a'' [ControlMicrosoftDirSyncResponse 1 ''c1'']]
   \<and> last_round example_env (example_round ''cn=b'' [ControlMicrosoftDirSyncResponse 0 ''c2''])
   \<and> serves stub_Search
        (exchange example_env example_request 1 ''c0''
           [example_round ''cn=a'' [ControlMicrosoftDirSyncResponse 1 ''c1'']]
           (answer (example_round ''cn=b'' [ControlMicrosoftDirSyncResponse 0 ''c2''])))
        ([answer (example_round ''cn=a'' [ControlMicrosoftDirSyncResponse 1 ''c1'']),
          answer (example_round ''cn=b'' [ControlMicrosoftDirSyncResponse 0 ''c2''])], [])
        ([], [example_request\<lparr>Controls := [ControlMicrosoftDirSync 1 ''c0'']\<rparr>,
              example_request\<lparr>Controls := [ControlMicrosoftDirSync 1 ''c1'']\<rparr>])
   \<and> SearchWithDirSync example_env stub_Search example_request ''c0'' 1
        ([answer (example_round ''cn=a'' [ControlMicrosoftDirSyncResponse 1 ''c1'']),
          answer (example_round ''cn=b'' [ControlMicrosoftDirSyncResponse 0 ''c2''])], []) =
      Some (Return (Some \<lparr>Entries = [example_entry ''cn=a'', example_entry ''cn=b''],
                           Referrals = [],
                           Controls_res = [ControlMicrosoftDirSyncResponse 1 ''c1'',
                                           ControlMicrosoftDirSyncResponse 0 ''c2'']\<rparr>,
                    ''c2'', None),
            example_request\<lparr>Controls := [ControlMicrosoftDirSync 1 ''c1'']\<rparr>,
            ([], [example_request\<lparr>Controls := [ControlMicrosoftDirSync 1 ''c0'']\<rparr>,
                  example_request\<lparr>Controls := [ControlMicrosoftDirSync 1 ''c1'']\<rparr>]))"
proof -
  have h1: "request_ok example_env example_request"
    by simp
  have h2: "list_all (more_round example_env)
      [example_round ''cn=a'' [ControlMicrosoftDirSyncResponse 1 ''c1'']]"
    by (simp add: more_round_def)
  have h3: "last_round example_env (example_round ''cn=b'' [ControlMicrosoftDirSyncResponse 0 ''c2''])"
    by (simp add: last_round_def)
  have h4: "serves stub_Search
        (exchange example_env example_request 1 ''c0''
           [example_round ''cn=a'' [ControlMicrosoftDirSyncResponse 1 ''c1'']]
           (answer (example_round ''cn=b'' [ControlMicrosoftDirSyncResponse 0 ''c2''])))
        ([answer (example_round ''cn=a'' [ControlMicrosoftDirSyncResponse 1 ''c1'']),
          answer (example_round ''cn=b'' [ControlMicrosoftDirSyncResponse 0 ''c2''])], [])
        ([], [example_request\<lparr>Controls := [ControlMicrosoftDirSync 1 ''c0'']\<rparr>,
              example_request\<lparr>Controls := [ControlMicrosoftDirSync 1 ''c1'']\<rparr>])"
    using exchange_stub_Search [of example_env example_request 1 "''c0''"
        "[example_round ''cn=a'' [ControlMicrosoftDirSyncResponse 1 ''c1'']]"
        "answer (example_round ''cn=b'' [ControlMicrosoftDirSyncResponse 0 ''c2''])" "[]" "[]"]
    by simp
  show ?thesis
    using h1 h2 h3 h4 SearchWithDirSync_rounds [OF h1 h2 h3 h4, THEN conjunct1]
    by simp
qed

text \<open>
  Against claim C3 as stated: a round with a non-zero more-results indicator does not
  continue when its cookie is empty. The call fails on that round and the server's next
  answer is never asked for.
\<close>

theorem SearchWithDirSync_more_results_empty_cookie_stops:
  "SearchWithDirSync example_env stub_Search example_request ''c0'' 1
     ([answer (example_round ''cn=a'' [ControlMicrosoftDirSyncResponse 1 []]),
       answer (example_round ''cn=b'' [ControlMicrosoftDirSyncResponse 0 ''c2''])], []) =
   Some (Return (Some (example_round ''cn=a'' [ControlMicrosoftDirSyncResponse 1 []]), [],
           Some (Error 200 ''ldap: empty cookie in DirSync control response'')),
         example_request\<lparr>Controls := [ControlMicrosoftDirSync 1 ''c0'']\<rparr>,
         ([answer (example_round ''cn=b'' [ControlMicrosoftDirSyncResponse 0 ''c2''])],
          [example_request\<lparr>Controls := [ControlMicrosoftDirSync 1 ''c0'']\<rparr>]))"
proof -
  have step: "dirsync_loop example_env stub_Search i q acc l1 =
      Some (Return (Some (append_result acc
                      (example_round ''cn=a'' [ControlMicrosoftDirSyncResponse 1 []])), [],
              Some (Error (ErrorNetwork example_env)
                      ''ldap: empty cookie in DirSync control response'')),
            q, snd (stub_Search q l1))"
    if "fst (stub_Search q l1) =
          answer (example_round ''cn=a'' [ControlMicrosoftDirSyncResponse 1 []])"
    for i q acc l1
    using that
    by (intro dirsync_loop_empty_cookie [where m = 1]) (simp_all add: answer_def prod_eq_iff)
  show ?thesis
    using SearchWithDirSync_stub_exchange [OF example_request_ok,
        where rs = "[]" and cookie = "''c0''" and flags = 1 and log = "[]"
          and rest = "[answer (example_round ''cn=b'' [ControlMicrosoftDirSyncResponse 0 ''c2''])]"
          and out = "\<lambda>acc. Return (Some (append_result acc
            (example_round ''cn=a'' [ControlMicrosoftDirSyncResponse 1 []])), [],
          Some (Error (ErrorNetwork example_env)
                  ''ldap: empty cookie in DirSync control response''))",
        OF _ step]
    by (simp add: append_result_def example_round_def)
qed


text \<open>One step of the loop on the outcome that a search function gives.\<close>

lemma dirsync_step_error:
  "fst (search q l1) = (res, Some e)
     \<Longrightarrow> dirsync_loop K search i q acc l1 =
         Some (Return (Some acc, [], Some e), q, snd (search q l1))"
  by (rule dirsync_loop_error) (simp add: prod_eq_iff)

lemma dirsync_step_nil:
  "fst (search q l1) = (None, None)
     \<Longrightarrow> dirsync_loop K search i q acc l1 =
         Some (Return (Some acc, [],
                 Some (Error (ErrorNetwork K) ''ldap: packet not received'')),
               q, snd (search q l1))"
  by (rule dirsync_loop_nil) (simp add: prod_eq_iff)

lemma dirsync_step_missing:
  "FindControl K (Controls_res r) (ControlTypeMicrosoftDirSync K) = None
     \<Longrightarrow> fst (search q l1) = answer r
     \<Longrightarrow> dirsync_loop K search i q acc l1 =
         Some (Return (Some (append_result acc r), [],
                 Some (Error (ErrorNetwork K) ''ldap: response is missing DirSync control'')),
               q, snd (search q l1))"
  by (rule dirsync_loop_missing) (simp_all add: answer_def prod_eq_iff)

lemma dirsync_step_empty_cookie:
  "sync_response K r = Some (m, [])
     \<Longrightarrow> fst (search q l1) = answer r
     \<Longrightarrow> dirsync_loop K search i q acc l1 =
         Some (Return (Some (append_result acc r), [],
                 Some (Error (ErrorNetwork K) ''ldap: empty cookie in DirSync control response'')),
               q, snd (search q l1))"
  by (rule dirsync_loop_empty_cookie [where m = m]) (simp_all add: answer_def prod_eq_iff)

lemma dirsync_step_panic:
  "FindControl K (Controls_res r) (ControlTypeMicrosoftDirSync K) = Some (j, c)
     \<Longrightarrow> (case c of ControlMicrosoftDirSyncResponse m ck \<Rightarrow> False | _ \<Rightarrow> True)
     \<Longrightarrow> fst (search q l1) = answer r
     \<Longrightarrow> dirsync_loop K search i q acc l1 = Some (Panic, q, snd (search q l1))"
  by (rule dirsync_loop_panic [where j = j and c = c and r = r])
    (simp_all add: answer_def prod_eq_iff)

text \<open>
  Claim C1, as amended. After any run of rounds that ask for another, a round whose
  response control carries an empty cookie ends \<open>SearchWithDirSync\<close> with the
  error of result code \<open>ErrorNetwork\<close> and text
  \<open>ldap: empty cookie in DirSync control response\<close>, whatever its more-results
  indicator says, zero included: the call returns no cookie and the results of all
  rounds up to and including this one, and leaves the connection as that round's
  search left it.
\<close>

theorem SearchWithDirSync_empty_cookie:
  assumes "request_ok K req" and "list_all (more_round K) rs"
    and "sync_response K r = Some (m, [])"
    and "serves search (exchange K req flags cookie rs (answer r)) l l'"
  shows "SearchWithDirSync K search req cookie flags l =
         Some (Return (Some (accumulated (rs @ [r])), [],
                 Some (Error (ErrorNetwork K) ''ldap: empty cookie in DirSync control response'')),
               dirsync_request K req (last (cookie # map (round_cookie K) rs)) flags, l')"
  using SearchWithDirSync_exchange [OF assms(1,2,4),
      where out = "\<lambda>acc. Return (Some (append_result acc r), [],
        Some (Error (ErrorNetwork K) ''ldap: empty cookie in DirSync control response''))",
      OF dirsync_step_empty_cookie [OF assms(3)]]
  by (simp add: accumulated_snoc)

theorem SearchWithDirSync_empty_cookie_witness:
  "request_ok example_env example_request
   \<and> list_all (more_round example_env)
        [example_round ''cn=a'' [ControlMicrosoftDirSyncResponse 1 ''c1'']]
   \<and> sync_response example_env (example_round ''cn=b'' [ControlMicrosoftDirSyncResponse 0 []])
       = Some (0, [])
   \<and> serves stub_Search
        (exchange example_env example_request 1 ''c0''
           [example_round ''cn=a'' [ControlMicrosoftDirSyncResponse 1 ''c1'']]
           (answer (example_round ''cn=b'' [ControlMicrosoftDirSyncResponse 0 []])))
        ([answer (example_round ''cn=a'' [ControlMicrosoftDirSyncResponse 1 ''c1'']),
          answer (example_round ''cn=b'' [ControlMicrosoftDirSyncResponse 0 []])], [])
        ([], [example_request\<lparr>Controls := [ControlMicrosoftDirSync 1 ''c0'']\<rparr>,
              example_request\<lparr>Controls := [ControlMicrosoftDirSync 1 ''c1'']\<rparr>])
   \<and> SearchWithDirSync example_env stub_Search example_request ''c0'' 1
        ([answer (example_round ''cn=a'' [ControlMicrosoftDirSyncResponse 1 ''c1'']),
          answer (example_round ''cn=b'' [ControlMicrosoftDirSyncResponse 0 []])], []) =
      Some (Return (Some \<lparr>Entries = [example_entry ''cn=a'', example_entry ''cn=b''],
                           Referrals = [],
                           Controls_res = [ControlMicrosoftDirSyncResponse 1 ''c1'',
                                           ControlMicrosoftDirSyncResponse 0 []]\<rparr>,
                    [], Some (Error 200 ''ldap: empty cookie in DirSync control response'')),
            example_request\<lparr>Controls := [ControlMicrosoftDirSync 1 ''c1'']\<rparr>,
            ([], [example_request\<lparr>Controls := [ControlMicrosoftDirSync 1 ''c0'']\<rparr>,
                  example_request\<lparr>Controls := [ControlMicrosoftDirSync 1 ''c1'']\<rparr>]))"
proof -
  have h1: "request_ok example_env example_request"
    by simp
  have h2: "list_all (more_round example_env)
      [example_round ''cn=a'' [ControlMicrosoftDirSyncResponse 1 ''c1'']]"
    by (simp add: more_round_def)
  have h3: "sync_response example_env (example_round ''cn=b'' [ControlMicrosoftDirSyncResponse 0 []])
       = Some (0, [])"
    by simp
  have h4: "serves stub_Search
        (exchange example_env example_request 1 ''c0''
           [example_round ''cn=a'' [ControlMicrosoftDirSyncResponse 1 ''c1'']]
           (answer (example_round ''cn=b'' [ControlMicrosoftDirSyncResponse 0 []])))
        ([answer (example_round ''cn=a'' [ControlMicrosoftDirSyncResponse 1 ''c1'']),
          answer (example_round ''cn=b'' [ControlMicrosoftDirSyncResponse 0 []])], [])
        ([], [example_request\<lparr>Controls := [ControlMicrosoftDirSync 1 ''c0'']\<rparr>,
              example_request\<lparr>Controls := [ControlMicrosoftDirSync 1 ''c1'']\<rparr>])"
    using exchange_stub_Search [of example_env example_request 1 "''c0''"
        "[example_round ''cn=a'' [ControlMicrosoftDirSyncResponse 1 ''c1'']]"
        "answer (example_round ''cn=b'' [ControlMicrosoftDirSyncResponse 0 []])" "[]" "[]"]
    by simp
  show ?thesis
    using h1 h2 h3 h4 SearchWithDirSync_empty_cookie [OF h1 h2 h3 h4]
    by simp
qed

text \<open>
  Against claim C1 as stated: the failure of an empty cookie is not a failure of a kind
  of its own. The round with an empty cookie fails with the result code
  \<open>ErrorNetwork\<close>, the code of a network failure: the same code comes back when
  the search returns neither a result nor an error.
\<close>

theorem SearchWithDirSync_empty_cookie_is_network_error:
  "SearchWithDirSync example_env stub_Search example_request ''c0'' 1
     ([answer (example_round ''cn=a'' [ControlMicrosoftDirSyncResponse 0 []])], []) =
   Some (Return (Some (example_round ''cn=a'' [ControlMicrosoftDirSyncResponse 0 []]), [],
           Some (Error (ErrorNetwork example_env)
                   ''ldap: empty cookie in DirSync control response'')),
         example_request\<lparr>Controls := [ControlMicrosoftDirSync 1 ''c0'']\<rparr>,
         ([], [example_request\<lparr>Controls := [ControlMicrosoftDirSync 1 ''c0'']\<rparr>]))
   \<and> SearchWithDirSync example_env stub_Search example_request ''c0'' 1 ([(None, None)], []) =
     Some (Return (Some (accumulated []), [],
             Some (Error (ErrorNetwork example_env) ''ldap: packet not received'')),
           example_request\<lparr>Controls := [ControlMicrosoftDirSync 1 ''c0'']\<rparr>,
           ([], [example_request\<lparr>Controls := [ControlMicrosoftDirSync 1 ''c0'']\<rparr>]))
   \<and> failure_of example_env (ErrorNetwork example_env) = NetworkError
   \<and> failure_of example_env (ErrorNetwork example_env) \<noteq> ProtocolViolationError"
proof -
  have h3: "sync_response example_env (example_round ''cn=a'' [ControlMicrosoftDirSyncResponse 0 []])
       = Some (0, [])"
    by simp
  show ?thesis
    using SearchWithDirSync_stub_exchange [OF example_request_ok,
        where rs = "[]" and cookie = "''c0''" and flags = 1 and log = "[]" and rest = "[]"
          and out = "\<lambda>acc. Return (Some (append_result acc
            (example_round ''cn=a'' [ControlMicrosoftDirSyncResponse 0 []])), [],
          Some (Error (ErrorNetwork example_env)
                  ''ldap: empty cookie in DirSync control response''))",
        OF _ dirsync_step_empty_cookie [OF h3]]
      SearchWithDirSync_stub_exchange [OF example_request_ok,
        where rs = "[]" and cookie = "''c0''" and flags = 1 and log = "[]" and rest = "[]"
          and out = "\<lambda>acc. Return (Some acc, [],
          Some (Error (ErrorNetwork example_env) ''ldap: packet not received''))",
        OF _ dirsync_step_nil]
    by (simp add: append_result_def example_round_def failure_of_def)
qed

text \<open>
  Claim C4, as amended. After any run of rounds that ask for another, a failing round
  ends \<open>SearchWithDirSync\<close>, which returns the failure, no cookie and the
  accumulated result, and leaves the connection as the failing search left it. When
  the search returns an error, or neither an error nor a result, the accumulated
  result holds the entries, referrals and controls of the rounds before the failing
  one. When the response has no directory-synchronisation control, or its cookie is
  empty, the accumulated result holds those of the failing round as well: they are
  appended before the control is looked for.
\<close>

theorem SearchWithDirSync_failure_partial:
  assumes "request_ok K req" and "list_all (more_round K) rs"
    and "serves search (exchange K req flags cookie rs x) l l'"
  shows "(\<forall>res e. x = (res, Some e) \<longrightarrow>
            SearchWithDirSync K search req cookie flags l =
              Some (Return (Some (accumulated rs), [], Some e),
                    dirsync_request K req (last (cookie # map (round_cookie K) rs)) flags, l'))
       \<and> (x = (None, None) \<longrightarrow>
            SearchWithDirSync K search req cookie flags l =
              Some (Return (Some (accumulated rs), [],
                      Some (Error (ErrorNetwork K) ''ldap: packet not received'')),
                    dirsync_request K req (last (cookie # map (round_cookie K) rs)) flags, l'))
       \<and> (\<forall>r. x = answer r
                \<and> FindControl K (Controls_res r) (ControlTypeMicrosoftDirSync K) = None \<longrightarrow>
            SearchWithDirSync K search req cookie flags l =
              Some (Return (Some (accumulated (rs @ [r])), [],
                      Some (Error (ErrorNetwork K) ''ldap: response is missing DirSync control'')),
                    dirsync_request K req (last (cookie # map (round_cookie K) rs)) flags, l'))
       \<and> (\<forall>r m. x = answer r \<and> sync_response K r = Some (m, []) \<longrightarrow>
            SearchWithDirSync K search req cookie flags l =
              Some (Return (Some (accumulated (rs @ [r])), [],
                      Some (Error (ErrorNetwork K)
                              ''ldap: empty cookie in DirSync control response'')),
                    dirsync_request K req (last (cookie # map (round_cookie K) rs)) flags, l'))"
proof (intro conjI allI impI)
  fix res e
  assume x: "x = (res, Some e)"
  show "SearchWithDirSync K search req cookie flags l =
      Some (Return (Some (accumulated rs), [], Some e),
            dirsync_request K req (last (cookie # map (round_cookie K) rs)) flags, l')"
    using SearchWithDirSync_exchange [OF assms,
        where out = "\<lambda>acc. Return (Some acc, [], Some e)"] dirsync_step_error [of search]
    by (simp add: x)
next
  assume x: "x = (None, None)"
  show "SearchWithDirSync K search req cookie flags l =
      Some (Return (Some (accumulated rs), [],
              Some (Error (ErrorNetwork K) ''ldap: packet not received'')),
            dirsync_request K req (last (cookie # map (round_cookie K) rs)) flags, l')"
    using SearchWithDirSync_exchange [OF assms,
        where out = "\<lambda>acc. Return (Some acc, [],
          Some (Error (ErrorNetwork K) ''ldap: packet not received''))"]
      dirsync_step_nil [of search]
    by (simp add: x)
next
  fix r
  assume x: "x = answer r
    \<and> FindControl K (Controls_res r) (ControlTypeMicrosoftDirSync K) = None"
  then have none: "FindControl K (Controls_res r) (ControlTypeMicrosoftDirSync K) = None"
    by simp
  show "SearchWithDirSync K search req cookie flags l =
      Some (Return (Some (accumulated (rs @ [r])), [],
              Some (Error (ErrorNetwork K) ''ldap: response is missing DirSync control'')),
            dirsync_request K req (last (cookie # map (round_cookie K) rs)) flags, l')"
    using SearchWithDirSync_exchange [OF assms,
        where out = "\<lambda>acc. Return (Some (append_result acc r), [],
          Some (Error (ErrorNetwork K) ''ldap: response is missing DirSync control''))"]
      dirsync_step_missing [OF none, of search]
    by (simp add: x accumulated_snoc)
next
  fix r m
  assume x: "x = answer r \<and> sync_response K r = Some (m, [])"
  then have empty: "sync_response K r = Some (m, [])"
    by simp
  show "SearchWithDirSync K search req cookie flags l =
      Some (Return (Some (accumulated (rs @ [r])), [],
              Some (Error (ErrorNetwork K) ''ldap: empty cookie in DirSync control response'')),
            dirsync_request K req (last (cookie # map (round_cookie K) rs)) flags, l')"
    using SearchWithDirSync_exchange [OF assms,
        where out = "\<lambda>acc. Return (Some (append_result acc r), [],
          Some (Error (ErrorNetwork K) ''ldap: empty cookie in DirSync control response''))"]
      dirsync_step_empty_cookie [OF empty, of search]
    by (simp add: x accumulated_snoc)
qed


theorem SearchWithDirSync_failure_partial_witness:
  "request_ok example_env example_request
   \<and> list_all (more_round example_env)
        [example_round ''cn=a'' [ControlMicrosoftDirSyncResponse 1 ''c1'']]
   \<and> serves stub_Search
        (exchange example_env example_request 1 ''c0''
           [example_round ''cn=a'' [ControlMicrosoftDirSyncResponse 1 ''c1'']]
           (None, Some (ErrorString ''timeout'')))
        ([answer (example_round ''cn=a'' [ControlMicrosoftDirSyncResponse 1 ''c1'']),
          (None, Some (ErrorString ''timeout''))], [])
        ([], [example_request\<lparr>Controls := [ControlMicrosoftDirSync 1 ''c0'']\<rparr>,
              example_request\<lparr>Controls := [ControlMicrosoftDirSync 1 ''c1'']\<rparr>])
   \<and> SearchWithDirSync example_env stub_Search example_request ''c0'' 1
        ([answer (example_round ''cn=a'' [ControlMicrosoftDirSyncResponse 1 ''c1'']),
          (None, Some (ErrorString ''timeout''))], []) =
      Some (Return (Some (example_round ''cn=a'' [ControlMicrosoftDirSyncResponse 1 ''c1'']),
                    [], Some (ErrorString ''timeout'')),
            example_request\<lparr>Controls := [ControlMicrosoftDirSync 1 ''c1'']\<rparr>,
            ([], [example_request\<lparr>Controls := [ControlMicrosoftDirSync 1 ''c0'']\<rparr>,
                  example_request\<lparr>Controls := [ControlMicrosoftDirSync 1 ''c1'']\<rparr>]))
   \<and> SearchWithDirSync example_env stub_Search example_request ''c0'' 1
        ([answer (example_round ''cn=a'' [ControlMicrosoftDirSyncResponse 1 ''c1'']),
          (None, None)], []) =
      Some (Return (Some (example_round ''cn=a'' [ControlMicrosoftDirSyncResponse 1 ''c1'']),
                    [], Some (Error 200 ''ldap: packet not received'')),
            example_request\<lparr>Controls := [ControlMicrosoftDirSync 1 ''c1'']\<rparr>,
            ([], [example_request\<lparr>Controls := [ControlMicrosoftDirSync 1 ''c0'']\<rparr>,
                  example_request\<lparr>Controls := [ControlMicrosoftDirSync 1 ''c1'']\<rparr>]))
   \<and> FindControl example_env (Controls_res (example_round ''cn=b'' []))
         (ControlTypeMicrosoftDirSync example_env) = None
   \<and> SearchWithDirSync example_env stub_Search example_request ''c0'' 1
        ([answer (example_round ''cn=a'' [ControlMicrosoftDirSyncResponse 1 ''c1'']),
          answer (example_round ''cn=b'' [])], []) =
      Some (Return (Some \<lparr>Entries = [example_entry ''cn=a'', example_entry ''cn=b''],
                           Referrals = [],
                           Controls_res = [ControlMicrosoftDirSyncResponse 1 ''c1'']\<rparr>,
                    [], Some (Error 200 ''ldap: response is missing DirSync control'')),
            example_request\<lparr>Controls := [ControlMicrosoftDirSync 1 ''c1'']\<rparr>,
            ([], [example_request\<lparr>Controls := [ControlMicrosoftDirSync 1 ''c0'']\<rparr>,
                  example_request\<lparr>Controls := [ControlMicrosoftDirSync 1 ''c1'']\<rparr>]))
   \<and> sync_response example_env (example_round ''cn=c'' [ControlMicrosoftDirSyncResponse 1 []])
       = Some (1, [])
   \<and> SearchWithDirSync example_env stub_Search example_request ''c0'' 1
        ([answer (example_round ''cn=a'' [ControlMicrosoftDirSyncResponse 1 ''c1'']),
          answer (example_round ''cn=c'' [ControlMicrosoftDirSyncResponse 1 []])], []) =
      Some (Return (Some \<lparr>Entries = [example_entry ''cn=a'', example_entry ''cn=c''],
                           Referrals = [],
                           Controls_res = [ControlMicrosoftDirSyncResponse 1 ''c1'',
                                           ControlMicrosoftDirSyncResponse 1 []]\<rparr>,
                    [], Some (Error 200 ''ldap: empty cookie in DirSync control response'')),
            example_request\<lparr>Controls := [ControlMicrosoftDirSync 1 ''c1'']\<rparr>,
            ([], [example_request\<lparr>Controls := [ControlMicrosoftDirSync 1 ''c0'']\<rparr>,
                  example_request\<lparr>Controls := [ControlMicrosoftDirSync 1 ''c1'']\<rparr>]))"
proof -
  have h1: "request_ok example_env example_request"
    by simp
  have h2: "list_all (more_round example_env)
      [example_round ''cn=a'' [ControlMicrosoftDirSyncResponse 1 ''c1'']]"
    by (simp add: more_round_def)
  have h3: "serves stub_Search
        (exchange example_env example_request 1 ''c0''
           [example_round ''cn=a'' [ControlMicrosoftDirSyncResponse 1 ''c1'']] x)
        ([answer (example_round ''cn=a'' [ControlMicrosoftDirSyncResponse 1 ''c1'']), x], [])
        ([], [example_request\<lparr>Controls := [ControlMicrosoftDirSync 1 ''c0'']\<rparr>,
              example_request\<lparr>Controls := [ControlMicrosoftDirSync 1 ''c1'']\<rparr>])" for x
    using exchange_stub_Search [of example_env example_request 1 "''c0''"
        "[example_round ''cn=a'' [ControlMicrosoftDirSyncResponse 1 ''c1'']]" x "[]" "[]"]
    by simp
  have h4: "FindControl example_env (Controls_res (example_round ''cn=b'' []))
         (ControlTypeMicrosoftDirSync example_env) = None"
    by simp
  have h5: "sync_response example_env (example_round ''cn=c'' [ControlMicrosoftDirSyncResponse 1 []])
       = Some (1, [])"
    by simp
  note run = SearchWithDirSync_failure_partial [OF h1 h2 h3]
  show ?thesis
    using h1 h2 h3 [of "(None, Some (ErrorString ''timeout''))"] h4 h5
      run [of "(None, Some (ErrorString ''timeout''))", THEN conjunct1, rule_format,
        of None "ErrorString ''timeout''"]
      run [of "(None, None)", THEN conjunct2, THEN conjunct1]
      run [of "answer (example_round ''cn=b'' [])", THEN conjunct2, THEN conjunct2,
        THEN conjunct1, rule_format, of "example_round ''cn=b'' []"]
      run [of "answer (example_round ''cn=c'' [ControlMicrosoftDirSyncResponse 1 []])",
        THEN conjunct2, THEN conjunct2, THEN conjunct2, rule_format,
        of "example_round ''cn=c'' [ControlMicrosoftDirSyncResponse 1 []]" 1]
    by (simp add: accumulated_def append_result_def new_SearchResult_def)
qed

text \<open>
  Against claim C4 as stated: when the failing round is one whose response has no
  directory-synchronisation control, the result that comes back with the failure is
  not the one accumulated before that round (here: nothing). It holds the failing
  round's own entry and controls.
\<close>

theorem SearchWithDirSync_failing_round_appended:
  "SearchWithDirSync example_env stub_Search example_request ''c0'' 1
     ([answer (example_round ''cn=a'' [ControlString ''1.2.3'' False ''v''])], []) =
   Some (Return (Some (example_round ''cn=a'' [ControlString ''1.2.3'' False ''v'']), [],
           Some (Error 200 ''ldap: response is missing DirSync control'')),
         example_request\<lparr>Controls := [ControlMicrosoftDirSync 1 ''c0'']\<rparr>,
         ([], [example_request\<lparr>Controls := [ControlMicrosoftDirSync 1 ''c0'']\<rparr>]))
   \<and> accumulated [] = \<lparr>Entries = [], Referrals = [], Controls_res = []\<rparr>
   \<and> example_round ''cn=a'' [ControlString ''1.2.3'' False ''v''] \<noteq> accumulated []"
proof -
  have none: "FindControl example_env
      (Controls_res (example_round ''cn=a'' [ControlString ''1.2.3'' False ''v'']))
      (ControlTypeMicrosoftDirSync example_env) = None"
    by simp
  show ?thesis
    using SearchWithDirSync_stub_exchange [OF example_request_ok,
        where rs = "[]" and cookie = "''c0''" and flags = 1 and log = "[]" and rest = "[]"
          and out = "\<lambda>acc. Return (Some (append_result acc
            (example_round ''cn=a'' [ControlString ''1.2.3'' False ''v''])), [],
          Some (Error (ErrorNetwork example_env)
                  ''ldap: response is missing DirSync control''))",
        OF _ dirsync_step_missing [OF none]]
    by (simp add: append_result_def example_round_def)
qed

text \<open>
  Claim C6, at the failing input. On the request side a control under the
  directory-synchronisation identifier that is not a request control is reported as an
  error, and nothing is sent. On the response side the type assertion is unchecked: a
  control under the identifier that is not a response control makes
  \<open>SearchWithDirSync\<close> panic, after the search was made.
\<close>

theorem SearchWithDirSync_response_assertion_panics:
  "SearchWithDirSync example_env stub_Search
     (example_request\<lparr>Controls := [ControlString ''1.2.840.113556.1.4.841'' True ''v'']\<rparr>)
     ''c0'' 1
     ([answer (example_round ''cn=a'' [ControlMicrosoftDirSyncResponse 0 ''c1''])], []) =
   Some (Return (None, [],
           Some (ErrorfControl
                   ''expected dirSync control to be of type *ControlMicrosoftDirSync, got %v''
                   (ControlString ''1.2.840.113556.1.4.841'' True ''v''))),
         example_request\<lparr>Controls := [ControlString ''1.2.840.113556.1.4.841'' True ''v'']\<rparr>,
         ([answer (example_round ''cn=a'' [ControlMicrosoftDirSyncResponse 0 ''c1''])], []))
   \<and> SearchWithDirSync example_env stub_Search example_request ''c0'' 1
       ([answer (example_round ''cn=a'' [ControlString ''1.2.840.113556.1.4.841'' True ''v''])], []) =
     Some (Panic,
           example_request\<lparr>Controls := [ControlMicrosoftDirSync 1 ''c0'']\<rparr>,
           ([], [example_request\<lparr>Controls := [ControlMicrosoftDirSync 1 ''c0'']\<rparr>]))"
proof
  show "SearchWithDirSync example_env stub_Search
     (example_request\<lparr>Controls := [ControlString ''1.2.840.113556.1.4.841'' True ''v'']\<rparr>)
     ''c0'' 1
     ([answer (example_round ''cn=a'' [ControlMicrosoftDirSyncResponse 0 ''c1''])], []) =
   Some (Return (None, [],
           Some (ErrorfControl
                   ''expected dirSync control to be of type *ControlMicrosoftDirSync, got %v''
                   (ControlString ''1.2.840.113556.1.4.841'' True ''v''))),
         example_request\<lparr>Controls := [ControlString ''1.2.840.113556.1.4.841'' True ''v'']\<rparr>,
         ([answer (example_round ''cn=a'' [ControlMicrosoftDirSyncResponse 0 ''c1''])], []))"
    by (simp add: SearchWithDirSync_def)
next
  have found: "FindControl example_env
      (Controls_res (example_round ''cn=a'' [ControlString ''1.2.840.113556.1.4.841'' True ''v'']))
      (ControlTypeMicrosoftDirSync example_env) =
      Some (0, ControlString ''1.2.840.113556.1.4.841'' True ''v'')"
    by simp
  have other: "(case ControlString ''1.2.840.113556.1.4.841'' True ''v'' of
      ControlMicrosoftDirSyncResponse m ck \<Rightarrow> False | _ \<Rightarrow> True)"
    by simp
  show "SearchWithDirSync example_env stub_Search example_request ''c0'' 1
       ([answer (example_round ''cn=a'' [ControlString ''1.2.840.113556.1.4.841'' True ''v''])], []) =
     Some (Panic,
           example_request\<lparr>Controls := [ControlMicrosoftDirSync 1 ''c0'']\<rparr>,
           ([], [example_request\<lparr>Controls := [ControlMicrosoftDirSync 1 ''c0'']\<rparr>]))"
    using SearchWithDirSync_stub_exchange [OF example_request_ok,
        where rs = "[]" and cookie = "''c0''" and flags = 1 and log = "[]" and rest = "[]"
          and out = "\<lambda>acc. Panic", OF _ dirsync_step_panic [OF found other]]
    by simp
qed

section \<open>Properties of the root DSE accessor\<close>

text \<open>
  Claim C5. \<open>RootDSE\<close> issues one search: empty base DN, base-object scope, the
  filter \<open>(objectclass=*)\<close>, the caller's attribute list (empty when the caller
  gives none) and no controls, which is the only request a stub server receives. When
  the search succeeds with exactly one entry, that entry is returned unchanged; when it
  succeeds with no entry or with more than one, the call fails; an error of the
  search is returned as it is.
\<close>

theorem RootDSE_search:
  assumes "Search \<lparr>BaseDN = [], Scope = ScopeBaseObject K, DerefAliases = NeverDerefAliases K,
                   SizeLimit = 0, TimeLimit = 0, TypesOnly = False,
                   Filter = ''(objectclass=*)'', Attributes = fields0, Controls = []\<rparr> conn
           = ((res, err), conn')"
  shows "(\<forall>e. err = Some e \<longrightarrow> RootDSE K Search fields0 conn = (Return (None, Some e), conn'))
       \<and> (\<forall>r x. err = None \<and> res = Some r \<and> Entries r = [x] \<longrightarrow>
             RootDSE K Search fields0 conn = (Return (Some x, None), conn'))
       \<and> (\<forall>r. err = None \<and> res = Some r \<and> length (Entries r) \<noteq> 1 \<longrightarrow>
             RootDSE K Search fields0 conn =
               (Return (None, Some (ErrorString ''Cannot get RootDSE'')), conn'))
       \<and> snd (RootDSE K stub_Search fields0 (x # rest, log)) =
           (rest, log @ [\<lparr>BaseDN = [], Scope = ScopeBaseObject K,
                           DerefAliases = NeverDerefAliases K, SizeLimit = 0, TimeLimit = 0,
                           TypesOnly = False, Filter = ''(objectclass=*)'',
                           Attributes = fields0, Controls = []\<rparr>])"
proof -
  have fields: "(if length fields0 = 0 then [] else fields0) = fields0"
    by simp
  show ?thesis
    using assms
    by (auto simp: RootDSE_def NewSearchRequest_def fields Let_def stub_Search_Cons
        split: option.splits prod.splits)
qed

theorem RootDSE_search_witness:
  "stub_Search \<lparr>BaseDN = [], Scope = ScopeBaseObject example_env,
                 DerefAliases = NeverDerefAliases example_env,
                 SizeLimit = 0, TimeLimit = 0, TypesOnly = False,
                 Filter = ''(objectclass=*)'', Attributes = [''dnsHostName''], Controls = []\<rparr>
     ([answer (example_round ''cn=root'' [])], [])
     = (answer (example_round ''cn=root'' []),
        ([], [\<lparr>BaseDN = [], Scope = 0, DerefAliases = 0, SizeLimit = 0, TimeLimit = 0,
                TypesOnly = False, Filter = ''(objectclass=*)'',
                Attributes = [''dnsHostName''], Controls = []\<rparr>]))
   \<and> RootDSE example_env stub_Search [''dnsHostName''] ([answer (example_round ''cn=root'' [])], [])
     = (Return (Some (example_entry ''cn=root''), None),
        ([], [\<lparr>BaseDN = [], Scope = 0, DerefAliases = 0, SizeLimit = 0, TimeLimit = 0,
                TypesOnly = False, Filter = ''(objectclass=*)'',
                Attributes = [''dnsHostName''], Controls = []\<rparr>]))
   \<and> RootDSE example_env stub_Search []
       ([answer \<lparr>Entries = [example_entry ''cn=a'', example_entry ''cn=b''], Referrals = [],
                  Controls_res = []\<rparr>], [])
     = (Return (None, Some (ErrorString ''Cannot get RootDSE'')),
        ([], [\<lparr>BaseDN = [], Scope = 0, DerefAliases = 0, SizeLimit = 0, TimeLimit = 0,
                TypesOnly = False, Filter = ''(objectclass=*)'',
                Attributes = [], Controls = []\<rparr>]))
   \<and> RootDSE example_env stub_Search []
       ([answer \<lparr>Entries = [], Referrals = [], Controls_res = []\<rparr>], [])
     = (Return (None, Some (ErrorString ''Cannot get RootDSE'')),
        ([], [\<lparr>BaseDN = [], Scope = 0, DerefAliases = 0, SizeLimit = 0, TimeLimit = 0,
                TypesOnly = False, Filter = ''(objectclass=*)'',
                Attributes = [], Controls = []\<rparr>]))
   \<and> RootDSE example_env stub_Search [] ([(None, Some (ErrorString ''closed''))], [])
     = (Return (None, Some (ErrorString ''closed'')),
        ([], [\<lparr>BaseDN = [], Scope = 0, DerefAliases = 0, SizeLimit = 0, TimeLimit = 0,
                TypesOnly = False, Filter = ''(objectclass=*)'',
                Attributes = [], Controls = []\<rparr>]))"
proof -
  note run = RootDSE_search [where K = example_env and Search = stub_Search]
  show ?thesis
    using run [where ?fields0.0 = "[''dnsHostName'']"
          and conn = "([answer (example_round ''cn=root'' [])], [])"
          and res = "Some (example_round ''cn=root'' [])" and err = None]
      run [where ?fields0.0 = "[]"
          and conn = "([answer \<lparr>Entries = [example_entry ''cn=a'', example_entry ''cn=b''],
                                  Referrals = [], Controls_res = []\<rparr>], [])"
          and res = "Some \<lparr>Entries = [example_entry ''cn=a'', example_entry ''cn=b''],
                            Referrals = [], Controls_res = []\<rparr>" and err = None]
      run [where ?fields0.0 = "[]"
          and conn = "([answer \<lparr>Entries = [], Referrals = [], Controls_res = []\<rparr>], [])"
          and res = "Some \<lparr>Entries = [], Referrals = [], Controls_res = []\<rparr>" and err = None]
      run [where ?fields0.0 = "[]"
          and conn = "([(None, Some (ErrorString ''closed''))], [])"
          and res = None and err = "Some (ErrorString ''closed'')"]
    by (simp add: answer_def stub_Search_Cons)
qed


section \<open>Properties of the bind operations\<close>

text \<open>
  Claim C2. A simple bind whose password is empty and whose
  \<open>AllowEmptyPassword\<close> flag is false fails with the error of result code
  \<open>ErrorEmptyPassword\<close> and leaves the connection as it found it, whatever the
  connection's operations are: none of them is applied, so nothing is written and no
  message ID is taken.
\<close>

theorem SimpleBind_empty_password:
  assumes "Password req = []" and "\<not> AllowEmptyPassword req"
  shows "SimpleBind K ops req l =
           (Return (None, Some (Error (ErrorEmptyPassword K)
                                  ''ldap: empty password not allowed by the client'')), l)"
  using assms by (simp add: SimpleBind_def NewError_def)

theorem SimpleBind_empty_password_witness:
  "Password (NewSimpleBindRequest ''cn=admin,dc=example,dc=com'' [] []) = []
   \<and> \<not> AllowEmptyPassword (NewSimpleBindRequest ''cn=admin,dc=example,dc=com'' [] [])
   \<and> SimpleBind example_env (stub_ops example_env)
        (NewSimpleBindRequest ''cn=admin,dc=example,dc=com'' [] []) (new_stub_conn []) =
       (Return (None, Some (Error 206 ''ldap: empty password not allowed by the client'')),
        \<lparr>counter = 0, written = [], inbox = [], finished = [], debugging = False\<rparr>)"
  using SimpleBind_empty_password [of "NewSimpleBindRequest ''cn=admin,dc=example,dc=com'' [] []"
      example_env "stub_ops example_env" "new_stub_conn []"]
  by (simp add: NewSimpleBindRequest_def new_stub_conn_def)

text \<open>
  For contrast, on the stub connection a bind that passes the guard takes one message
  ID and writes one envelope.
\<close>

lemma SimpleBind_submits:
  assumes "Password req \<noteq> [] \<or> AllowEmptyPassword req"
  shows "counter (snd (SimpleBind K (stub_ops K) req l)) = counter l + 1
       \<and> length (written (snd (SimpleBind K (stub_ops K) req l))) = length (written l) + 1"
  using assms
  by (auto simp: SimpleBind_def stub_ops_def appendTo_def Let_def
      split: prod.splits sum.splits list.splits option.splits)

text \<open>
  Claim C8. \<open>appendTo\<close> adds to the envelope the bind request, an
  application-class constructed packet under the bind request's tag whose children are,
  in order, the version (universal integer, value 3), the user name (universal octet
  string, the request's \<open>Username\<close>) and the password (context class, primitive,
  tag 0, the request's \<open>Password\<close>), and whose content is the encodings of the
  three, in that order; after it come the encoded controls when the request has at
  least one control, and nothing when it has none. It returns no error.
\<close>

theorem appendTo_envelope:
  "fst (appendTo K req envelope) = None
   \<and> (\<exists>pkt. Children (snd (appendTo K req envelope)) =
          Children envelope @ Some pkt #
            (if Controls_bind req = [] then [] else [Some (encodeControls K (Controls_bind req))])
        \<and> ClassType pkt = ClassApplication \<and> TagType pkt = TypeConstructed
        \<and> Tag pkt = ApplicationBindRequest K
        \<and> Children pkt =
            [Some (Packet ClassUniversal TypePrimitive TagInteger (VInt 3)
                     (encodeInteger K 3) [] ''Version''),
             Some (Packet ClassUniversal TypePrimitive TagOctetString (VString (Username req))
                     (Username req) [] ''User Name''),
             Some (Packet ClassContext TypePrimitive 0 (VString (Password req))
                     (Password req) [] ''Password'')]
        \<and> Data pkt =
            Bytes K (Packet ClassUniversal TypePrimitive TagInteger (VInt 3)
                       (encodeInteger K 3) [] ''Version'')
            @ Bytes K (Packet ClassUniversal TypePrimitive TagOctetString
                         (VString (Username req)) (Username req) [] ''User Name'')
            @ Bytes K (Packet ClassContext TypePrimitive 0 (VString (Password req))
                         (Password req) [] ''Password''))"
  by (simp add: appendTo_def Let_def AppendChild_def Encode_def NewInteger_def NewString_def)


lemma decodeChildren_Inr:
  "map (DecodeControl K) children = map Inr ds
     \<Longrightarrow> decodeChildren K children controls = Inr (controls @ ds)"
proof (induction children arbitrary: controls ds)
  case Nil
  then show ?case by simp
next
  case (Cons child children)
  then obtain d ds' where "ds = d # ds'" "DecodeControl K child = Inr d"
    "map (DecodeControl K) children = map Inr ds'"
    by (cases ds) auto
  with Cons.IH [of ds' "controls @ [d]"] show ?case by simp
qed

lemma decodeChildren_Inl:
  "decodeChildren K children controls = Inl e
     \<Longrightarrow> \<exists>c d. c \<in> set children \<and> DecodeControl K c = Inl d
               \<and> e = ErrorfError ''failed to decode child control: %s'' d"
proof (induction children arbitrary: controls)
  case Nil
  then show ?case by simp
next
  case (Cons child children)
  show ?case
  proof (cases "DecodeControl K child")
    case (Inl d)
    with Cons.prems show ?thesis by auto
  next
    case (Inr b)
    with Cons.prems have "decodeChildren K children (controls @ [b]) = Inl e"
      by simp
    from Cons.IH [OF this] show ?thesis by auto
  qed
qed

lemma GetLDAPError_spec_result:
  "response_result packet = Some (n, diagnostic)
     \<Longrightarrow> GetLDAPError_spec K packet =
         (if n = 0 then None else Some (Error (word_of_int n) diagnostic))"
  by (simp add: GetLDAPError_spec_def)

text \<open>The paths of \<open>SimpleBind\<close> once a response packet was read.\<close>

lemma SimpleBind_no_section:
  assumes "Password req \<noteq> [] \<or> AllowEmptyPassword req"
    and "doRequest ops (appendTo K req) l = (Inr msgCtx, l1)"
    and "readPacket ops msgCtx l1 = (Inr (Some packet), l2)"
    and "length (Children packet) \<noteq> 3"
  shows "SimpleBind K ops req l =
           (Return (Some \<lparr>Controls_bound = []\<rparr>, GetLDAPError K packet),
            finishMessage ops msgCtx l2)"
  using assms by (auto simp: SimpleBind_def)

lemma SimpleBind_section:
  assumes "Password req \<noteq> [] \<or> AllowEmptyPassword req"
    and "doRequest ops (appendTo K req) l = (Inr msgCtx, l1)"
    and "readPacket ops msgCtx l1 = (Inr (Some packet), l2)"
    and "length (Children packet) = 3" and "Children packet ! 2 = Some sect"
  shows "SimpleBind K ops req l =
           (case decodeChildren K (Children sect) [] of
              Inl e \<Rightarrow> (Return (None, Some e), finishMessage ops msgCtx l2)
            | Inr controls \<Rightarrow>
                (Return (Some \<lparr>Controls_bound = controls\<rparr>, GetLDAPError K packet),
                 finishMessage ops msgCtx l2))"
  using assms by (auto simp: SimpleBind_def)

lemma SimpleBind_nil_section:
  assumes "Password req \<noteq> [] \<or> AllowEmptyPassword req"
    and "doRequest ops (appendTo K req) l = (Inr msgCtx, l1)"
    and "readPacket ops msgCtx l1 = (Inr (Some packet), l2)"
    and "length (Children packet) = 3" and "Children packet ! 2 = None"
  shows "SimpleBind K ops req l = (Panic, finishMessage ops msgCtx l2)"
  using assms by (auto simp: SimpleBind_def)

lemma decodeChildren_failure:
  "map (DecodeControl K) before = map Inr ds \<Longrightarrow> DecodeControl K c = Inl d
     \<Longrightarrow> decodeChildren K (before @ c # after) controls =
         Inl (ErrorfError ''failed to decode child control: %s'' d)"
proof (induction before arbitrary: controls ds)
  case Nil
  then show ?case by simp
next
  case (Cons child before)
  then obtain x ds' where "DecodeControl K child = Inr x"
    "map (DecodeControl K) before = map Inr ds'"
    by (cases ds) auto
  with Cons.IH [of ds' "controls @ [x]"] Cons.prems(2) show ?case by simp
qed

text \<open>
  Claim C7, as amended. Once the response envelope of a simple bind was read: when the
  envelope does not have exactly three children, no control is decoded and the result
  has an empty controls list; when it has and the children of the third all decode,
  the result has the decoded controls in order. In both cases, with the result code
  and the diagnostic message read off the envelope as the spec says, result code 0
  makes the call succeed, and any other result code comes back as an error that
  carries the server's diagnostic text. When a child of the third fails to decode, the
  call ends there with a nil result and the error of the first such child, whatever
  the result code is.
\<close>

theorem SimpleBind_response:
  assumes "Password req \<noteq> [] \<or> AllowEmptyPassword req"
    and "doRequest ops (appendTo K req) l = (Inr msgCtx, l1)"
    and "readPacket ops msgCtx l1 = (Inr (Some packet), l2)"
    and "GetLDAPError K = GetLDAPError_spec K"
    and "response_result packet = Some (n, diagnostic)"
  shows "(length (Children packet) \<noteq> 3 \<longrightarrow>
            SimpleBind K ops req l =
              (Return (Some \<lparr>Controls_bound = []\<rparr>,
                       if n = 0 then None else Some (Error (word_of_int n) diagnostic)),
               finishMessage ops msgCtx l2))
       \<and> (\<forall>sect ds.
            length (Children packet) = 3 \<and> Children packet ! 2 = Some sect
            \<and> map (DecodeControl K) (Children sect) = map Inr ds \<longrightarrow>
            SimpleBind K ops req l =
              (Return (Some \<lparr>Controls_bound = ds\<rparr>,
                       if n = 0 then None else Some (Error (word_of_int n) diagnostic)),
               finishMessage ops msgCtx l2))
       \<and> (\<forall>sect before ds c d after.
            length (Children packet) = 3 \<and> Children packet ! 2 = Some sect
            \<and> Children sect = before @ c # after
            \<and> map (DecodeControl K) before = map Inr ds \<and> DecodeControl K c = Inl d \<longrightarrow>
            SimpleBind K ops req l =
              (Return (None, Some (ErrorfError ''failed to decode child control: %s'' d)),
               finishMessage ops msgCtx l2))"
proof (intro conjI allI impI)
  assume "length (Children packet) \<noteq> 3"
  from SimpleBind_no_section [OF assms(1-3) this]
  show "SimpleBind K ops req l =
      (Return (Some \<lparr>Controls_bound = []\<rparr>,
               if n = 0 then None else Some (Error (word_of_int n) diagnostic)),
       finishMessage ops msgCtx l2)"
    by (simp add: assms(4) GetLDAPError_spec_result [OF assms(5)])
next
  fix sect ds
  assume a: "length (Children packet) = 3 \<and> Children packet ! 2 = Some sect
            \<and> map (DecodeControl K) (Children sect) = map Inr ds"
  then have "decodeChildren K (Children sect) [] = Inr ds"
    using decodeChildren_Inr [of K "Children sect" ds "[]"] by simp
  with a SimpleBind_section [OF assms(1-3), of sect]
  show "SimpleBind K ops req l =
      (Return (Some \<lparr>Controls_bound = ds\<rparr>,
               if n = 0 then None else Some (Error (word_of_int n) diagnostic)),
       finishMessage ops msgCtx l2)"
    by (simp add: assms(4) GetLDAPError_spec_result [OF assms(5)])
next
  fix sect before ds c d after
  assume a: "length (Children packet) = 3 \<and> Children packet ! 2 = Some sect
            \<and> Children sect = before @ c # after
            \<and> map (DecodeControl K) before = map Inr ds \<and> DecodeControl K c = Inl d"
  then have "decodeChildren K (Children sect) [] =
      Inl (ErrorfError ''failed to decode child control: %s'' d)"
    using decodeChildren_failure [of K before ds c d after "[]"] by simp
  with a SimpleBind_section [OF assms(1-3), of sect]
  show "SimpleBind K ops req l =
      (Return (None, Some (ErrorfError ''failed to decode child control: %s'' d)),
       finishMessage ops msgCtx l2)"
    by simp
qed

text \<open>
  Claim C10. A simple bind that passes the guard returns a nil result with the error
  when the request cannot be submitted or the response cannot be read. Once a response
  was read and the server's result code is an error, the call returns that error with a
  result that is not nil: an empty controls list when the envelope does not have
  exactly three children, the decoded controls when the children of the third all
  decode. The only nil result on a response is that of a control that fails to decode.
\<close>

theorem SimpleBind_result_with_error:
  assumes "Password req \<noteq> [] \<or> AllowEmptyPassword req"
  shows "(\<forall>err l1. doRequest ops (appendTo K req) l = (Inl err, l1) \<longrightarrow>
            SimpleBind K ops req l = (Return (None, Some err), l1))
       \<and> (\<forall>msgCtx l1 err l2.
            doRequest ops (appendTo K req) l = (Inr msgCtx, l1)
            \<and> readPacket ops msgCtx l1 = (Inl err, l2) \<longrightarrow>
            SimpleBind K ops req l = (Return (None, Some err), finishMessage ops msgCtx l2))
       \<and> (\<forall>msgCtx l1 packet l2 e.
            doRequest ops (appendTo K req) l = (Inr msgCtx, l1)
            \<and> readPacket ops msgCtx l1 = (Inr (Some packet), l2)
            \<and> GetLDAPError K packet = Some e \<longrightarrow>
            (length (Children packet) \<noteq> 3 \<longrightarrow>
               SimpleBind K ops req l =
                 (Return (Some \<lparr>Controls_bound = []\<rparr>, Some e), finishMessage ops msgCtx l2))
            \<and> (\<forall>sect ds.
                 length (Children packet) = 3 \<and> Children packet ! 2 = Some sect
                 \<and> map (DecodeControl K) (Children sect) = map Inr ds \<longrightarrow>
                 SimpleBind K ops req l =
                   (Return (Some \<lparr>Controls_bound = ds\<rparr>, Some e),
                    finishMessage ops msgCtx l2))
            \<and> (\<forall>err. fst (SimpleBind K ops req l) = Return (None, err) \<longrightarrow>
                 (\<exists>sect c d.
                    length (Children packet) = 3 \<and> Children packet ! 2 = Some sect
                    \<and> c \<in> set (Children sect) \<and> DecodeControl K c = Inl d
                    \<and> err = Some (ErrorfError ''failed to decode child control: %s'' d))))"
proof (intro conjI allI impI)
  fix err l1
  assume "doRequest ops (appendTo K req) l = (Inl err, l1)"
  with assms show "SimpleBind K ops req l = (Return (None, Some err), l1)"
    by (auto simp: SimpleBind_def)
next
  fix msgCtx l1 err l2
  assume "doRequest ops (appendTo K req) l = (Inr msgCtx, l1)
            \<and> readPacket ops msgCtx l1 = (Inl err, l2)"
  with assms show "SimpleBind K ops req l = (Return (None, Some err), finishMessage ops msgCtx l2)"
    by (auto simp: SimpleBind_def)
next
  fix msgCtx l1 packet l2 e
  assume a: "doRequest ops (appendTo K req) l = (Inr msgCtx, l1)
            \<and> readPacket ops msgCtx l1 = (Inr (Some packet), l2)
            \<and> GetLDAPError K packet = Some e"
  assume "length (Children packet) \<noteq> 3"
  with a SimpleBind_no_section [OF assms, of ops K l msgCtx l1 packet l2]
  show "SimpleBind K ops req l =
      (Return (Some \<lparr>Controls_bound = []\<rparr>, Some e), finishMessage ops msgCtx l2)"
    by simp
next
  fix msgCtx l1 packet l2 e sect ds
  assume a: "doRequest ops (appendTo K req) l = (Inr msgCtx, l1)
            \<and> readPacket ops msgCtx l1 = (Inr (Some packet), l2)
            \<and> GetLDAPError K packet = Some e"
  assume b: "length (Children packet) = 3 \<and> Children packet ! 2 = Some sect
            \<and> map (DecodeControl K) (Children sect) = map Inr ds"
  then have "decodeChildren K (Children sect) [] = Inr ds"
    using decodeChildren_Inr [of K "Children sect" ds "[]"] by simp
  with a b SimpleBind_section [OF assms, of ops K l msgCtx l1 packet l2 sect]
  show "SimpleBind K ops req l =
      (Return (Some \<lparr>Controls_bound = ds\<rparr>, Some e), finishMessage ops msgCtx l2)"
    by simp
next
  fix msgCtx l1 packet l2 e err
  assume a: "doRequest ops (appendTo K req) l = (Inr msgCtx, l1)
            \<and> readPacket ops msgCtx l1 = (Inr (Some packet), l2)
            \<and> GetLDAPError K packet = Some e"
  assume nil: "fst (SimpleBind K ops req l) = Return (None, err)"
  show "\<exists>sect c d.
          length (Children packet) = 3 \<and> Children packet ! 2 = Some sect
          \<and> c \<in> set (Children sect) \<and> DecodeControl K c = Inl d
          \<and> err = Some (ErrorfError ''failed to decode child control: %s'' d)"
  proof (cases "length (Children packet) = 3")
    case False
    with a nil SimpleBind_no_section [OF assms, of ops K l msgCtx l1 packet l2]
    show ?thesis by simp
  next
    case True
    show ?thesis
    proof (cases "Children packet ! 2")
      case None
      with a nil True SimpleBind_nil_section [OF assms, of ops K l msgCtx l1 packet l2]
      show ?thesis by simp
    next
      case (Some sect)
      show ?thesis
      proof (cases "decodeChildren K (Children sect) []")
        case (Inl x)
        from decodeChildren_Inl [OF Inl] obtain c d where
          "c \<in> set (Children sect)" "DecodeControl K c = Inl d"
          "x = ErrorfError ''failed to decode child control: %s'' d"
          by blast
        with a nil True Some Inl
          SimpleBind_section [OF assms, of ops K l msgCtx l1 packet l2 sect]
        show ?thesis by auto
      next
        case (Inr cs)
        with a nil True Some
          SimpleBind_section [OF assms, of ops K l msgCtx l1 packet l2 sect]
        show ?thesis by simp
      qed
    qed
  qed
qed


lemma example_env_GetLDAPError:
  "GetLDAPError example_env = GetLDAPError_spec example_env"
proof
  fix p
  have "GetLDAPError example_env p = GetLDAPError_spec example_consts p"
    by (simp add: example_env_def)
  moreover have "ErrorNetwork example_consts = ErrorNetwork example_env"
    by (simp add: example_consts_def)
  ultimately show "GetLDAPError example_env p = GetLDAPError_spec example_env p"
    by (simp add: GetLDAPError_spec_def split: option.splits)
qed

lemma example_response_result [simp]:
  "response_result (example_response n diagnostic token) = Some (n, diagnostic)"
  "response_result (with_controls (example_response n diagnostic token) cs) = Some (n, diagnostic)"
  by (simp_all add: response_result_def example_response_def with_controls_def)

lemma example_response_children [simp]:
  "length (Children (example_response n diagnostic token)) = 2"
  "length (Children (with_controls (example_response n diagnostic token) cs)) = 3"
  "Children (with_controls (example_response n diagnostic token) cs) ! 2 =
     Some (Packet ClassContext TypeConstructed 0 VNil [] cs ''Controls'')"
  by (simp_all add: example_response_def with_controls_def)

lemma example_DecodeControl [simp]:
  "DecodeControl example_env (example_control t) = Inr (ControlString t False [])"
  "DecodeControl example_env None = Inl (ErrorString ''nil control'')"
  "DecodeControl example_env example_undecodable =
     Inl (ErrorString ''control without an identifier'')"
  by (simp_all add: example_env_def example_consts_def example_DecodeControl_def
      example_control_def example_undecodable_def)

lemma stub_doRequest:
  "doRequest (stub_ops K) (appendTo K req) l =
     (Inr (counter l + 1), snd (doRequest (stub_ops K) (appendTo K req) l))"
  by (simp add: stub_ops_def appendTo_def Let_def)

lemma stub_readPacket:
  "inbox l = Inr p # xs
     \<Longrightarrow> readPacket (stub_ops K) msgCtx l =
         (Inr (Some p), snd (readPacket (stub_ops K) msgCtx l))"
  "inbox l = Inl e # xs
     \<Longrightarrow> readPacket (stub_ops K) msgCtx l = (Inl e, snd (readPacket (stub_ops K) msgCtx l))"
  by (simp_all add: stub_ops_def)

lemma stub_doRequest_inbox [simp]:
  "inbox (snd (doRequest (stub_ops K) (appendTo K req) l)) = inbox l"
  by (simp add: stub_ops_def appendTo_def Let_def)

lemma new_stub_conn_inbox [simp]: "inbox (new_stub_conn replies) = replies"
  by (simp add: new_stub_conn_def)

theorem SimpleBind_response_witness:
  "AllowEmptyPassword example_bind
   \<and> GetLDAPError example_env = GetLDAPError_spec example_env
   \<and> response_result (example_response 0 [] None) = Some (0, [])
   \<and> length (Children (example_response 0 [] None)) \<noteq> 3
   \<and> fst (SimpleBind example_env (stub_ops example_env) example_bind
        (new_stub_conn [Inr (example_response 0 [] None)])) =
       Return (Some \<lparr>Controls_bound = []\<rparr>, None)
   \<and> fst (SimpleBind example_env (stub_ops example_env) example_bind
        (new_stub_conn [Inr (example_response 49 ''invalid credentials'' None)])) =
       Return (Some \<lparr>Controls_bound = []\<rparr>, Some (Error 49 ''invalid credentials''))
   \<and> fst (SimpleBind example_env (stub_ops example_env) example_bind
        (new_stub_conn [Inr (with_controls (example_response 0 [] None)
                               [example_control ''1.2.3'', example_control ''1.2.4''])])) =
       Return (Some \<lparr>Controls_bound = [ControlString ''1.2.3'' False [],
                                         ControlString ''1.2.4'' False []]\<rparr>, None)
   \<and> DecodeControl example_env example_undecodable =
       Inl (ErrorString ''control without an identifier'')
   \<and> fst (SimpleBind example_env (stub_ops example_env) example_bind
        (new_stub_conn [Inr (with_controls (example_response 0 [] None)
                               [example_control ''1.2.3'', example_undecodable,
                                example_control ''1.2.4''])])) =
       Return (None, Some (ErrorfError ''failed to decode child control: %s''
                             (ErrorString ''control without an identifier'')))"
proof -
  have g: "Password example_bind \<noteq> [] \<or> AllowEmptyPassword example_bind"
    by (simp add: example_bind_def)
  have inbox: "inbox (snd (doRequest (stub_ops example_env) (appendTo example_env example_bind)
      (new_stub_conn [Inr p]))) = [Inr p]" for p
    by simp
  note run = SimpleBind_response [OF g stub_doRequest stub_readPacket(1) [OF inbox]
      example_env_GetLDAPError]
  show ?thesis
    using run [OF example_response_result(1), of 0 "[]" None, THEN conjunct1]
      run [OF example_response_result(1), of 49 "''invalid credentials''" None, THEN conjunct1]
      run [OF example_response_result(2), of 0 "[]" None
          "[example_control ''1.2.3'', example_control ''1.2.4'']",
        THEN conjunct2, THEN conjunct1, rule_format,
        of _ "[ControlString ''1.2.3'' False [], ControlString ''1.2.4'' False []]"]
      run [OF example_response_result(2), of 0 "[]" None
          "[example_control ''1.2.3'', example_undecodable, example_control ''1.2.4'']",
        THEN conjunct2, THEN conjunct2, rule_format,
        of _ "[example_control ''1.2.3'']" example_undecodable "[example_control ''1.2.4'']"
          "[ControlString ''1.2.3'' False []]" "ErrorString ''control without an identifier''"]
    by (simp add: example_env_GetLDAPError example_bind_def)
qed

text \<open>
  Against claim C7 as stated: a non-zero result code does not always come back as the
  server's error. On a response with result code 49 whose controls section holds a
  control that fails to decode, the call returns a nil result and the decoding error;
  the result code is never looked at.
\<close>

theorem SimpleBind_undecodable_control:
  "response_result (with_controls (example_response 49 ''invalid credentials'' None)
                      [example_undecodable]) =
     Some (49, ''invalid credentials'')
   \<and> GetLDAPError example_env
        (with_controls (example_response 49 ''invalid credentials'' None)
           [example_undecodable]) =
      Some (Error 49 ''invalid credentials'')
   \<and> fst (SimpleBind example_env (stub_ops example_env) example_bind
        (new_stub_conn [Inr (with_controls (example_response 49 ''invalid credentials'' None)
                               [example_undecodable])])) =
       Return (None, Some (ErrorfError ''failed to decode child control: %s''
                             (ErrorString ''control without an identifier'')))"
proof -
  have g: "Password example_bind \<noteq> [] \<or> AllowEmptyPassword example_bind"
    by (simp add: example_bind_def)
  have inbox: "inbox (snd (doRequest (stub_ops example_env) (appendTo example_env example_bind)
      (new_stub_conn [Inr p]))) = [Inr p]" for p
    by simp
  have e: "GetLDAPError example_env
        (with_controls (example_response 49 ''invalid credentials'' None)
           [example_undecodable]) =
      Some (Error 49 ''invalid credentials'')"
    by (simp add: example_env_GetLDAPError GetLDAPError_spec_def)
  note run = SimpleBind_section [OF g stub_doRequest stub_readPacket(1) [OF inbox]
      example_response_children(2,3)]
  show ?thesis
    using e by (simp add: run)
qed

theorem SimpleBind_result_with_error_witness:
  "AllowEmptyPassword example_bind
   \<and> fst (SimpleBind example_env (stub_ops example_env) example_bind
        (new_stub_conn [Inl (ErrorString ''connection reset'')])) =
       Return (None, Some (ErrorString ''connection reset''))
   \<and> GetLDAPError example_env (example_response 49 ''invalid credentials'' None) =
       Some (Error 49 ''invalid credentials'')
   \<and> fst (SimpleBind example_env (stub_ops example_env) example_bind
        (new_stub_conn [Inr (example_response 49 ''invalid credentials'' None)])) =
       Return (Some \<lparr>Controls_bound = []\<rparr>, Some (Error 49 ''invalid credentials''))
   \<and> fst (SimpleBind example_env (stub_ops example_env) example_bind
        (new_stub_conn [Inr (with_controls (example_response 49 ''invalid credentials'' None)
                               [example_control ''1.2.3''])])) =
       Return (Some \<lparr>Controls_bound = [ControlString ''1.2.3'' False []]\<rparr>,
               Some (Error 49 ''invalid credentials''))"
proof -
  have g: "Password example_bind \<noteq> [] \<or> AllowEmptyPassword example_bind"
    by (simp add: example_bind_def)
  have inbox: "inbox (snd (doRequest (stub_ops example_env) (appendTo example_env example_bind)
      (new_stub_conn [x]))) = [x]" for x
    by simp
  have e: "GetLDAPError example_env (example_response 49 ''invalid credentials'' None) =
       Some (Error 49 ''invalid credentials'')"
    "GetLDAPError example_env (with_controls (example_response 49 ''invalid credentials'' None) cs) =
       Some (Error 49 ''invalid credentials'')" for cs
    by (simp_all add: example_env_GetLDAPError GetLDAPError_spec_def)
  note run = SimpleBind_result_with_error [OF g, of "stub_ops example_env" example_env]
  show ?thesis
    using g e(1)
      run [THEN conjunct2, THEN conjunct1, rule_format,
        OF conjI [OF stub_doRequest stub_readPacket(2) [OF inbox]]]
      run [THEN conjunct2, THEN conjunct2, rule_format,
        OF conjI [OF stub_doRequest conjI [OF stub_readPacket(1) [OF inbox] e(1)]],
        THEN conjunct1]
      run [THEN conjunct2, THEN conjunct2, rule_format,
        OF conjI [OF stub_doRequest conjI [OF stub_readPacket(1) [OF inbox] e(2)]],
        THEN conjunct2, THEN conjunct1, rule_format,
        of "[example_control ''1.2.3'']" _ "[ControlString ''1.2.3'' False []]"]
    by (simp add: example_bind_def)
qed

text \<open>The extraction of \<open>getSASLBindResultCode\<close> on a response of the fixed shape.\<close>

lemma getSASLBindResultCode_shape:
  assumes "sasl_response p = Some (n, d, tok)"
  shows "getSASLBindResultCode K (Some p) =
           Return (word_of_int n, (case tok of None \<Rightarrow> None | Some t \<Rightarrow> Buffer_Bytes t), d)"
proof -
  from assms have l2: "length (Children p) \<ge> 2"
    by (simp add: sasl_response_def split: if_splits)
  with assms obtain response where r: "Children p ! 1 = Some response"
    by (cases "Children p ! 1") (simp_all add: sasl_response_def)
  from assms l2 r have shape: "ClassType response = ClassApplication"
    "TagType response = TypeConstructed" "length (Children response) \<ge> 3"
    by (simp_all add: sasl_response_def split: if_splits)
  from assms l2 r shape obtain c0 c2 where c: "Children response ! 0 = Some c0"
    "Children response ! 2 = Some c2"
    by (cases "Children response ! 0"; cases "Children response ! 2")
      (simp_all add: sasl_response_def)
  from assms l2 r shape c have v: "Value c0 = VInt64 n" "Value c2 = VString d"
    by (cases "Value c0"; cases "Value c2";
        simp add: sasl_response_def split: if_splits option.splits)+
  show ?thesis
  proof (cases "length (Children response) \<ge> 4")
    case True
    with assms l2 r shape c v obtain t where "Children response ! 3 = Some t" "tok = Some (Data t)"
      by (cases "Children response ! 3") (simp_all add: sasl_response_def)
    with True l2 r shape c v show ?thesis
      by (simp add: getSASLBindResultCode_def)
  next
    case False
    with assms l2 r shape c v have "tok = None"
      by (simp add: sasl_response_def)
    with False l2 r shape c v show ?thesis
      by (simp add: getSASLBindResultCode_def)
  qed
qed

lemma SASLBind_after_response:
  assumes "nextMessageID ops l = (messageID, l0)"
    and "sendMessage ops (SASLBind_packet K messageID mechanism credentials) l0 = (Inr msgCtx, l1)"
    and "responses ops msgCtx l1 = (Some (Some p0, None), l2)"
    and "(if Debug ops l2 then addLDAPDescriptions K (Some p0) else Inr (Some p0)) = Inr (Some p)"
    and "sasl_response p = Some (n, d, tok)"
  shows "SASLBind K ops mechanism credentials l =
           (Return (if (word_of_int n :: 8 word) \<noteq> 0
                    then (None, Some (Error (word_of_int n) d))
                    else ((case tok of None \<Rightarrow> None | Some t \<Rightarrow> Buffer_Bytes t), None)),
            finishMessage ops msgCtx l2)"
  using assms(1-4) getSASLBindResultCode_shape [OF assms(5), of K]
  by (simp add: SASLBind_def NewError_def Let_def)

lemma uint8_of_code:
  "0 \<le> n \<Longrightarrow> n < 256 \<Longrightarrow> uint (word_of_int n :: 8 word) = n"
  by (simp add: uint_word_of_int_eq take_bit_int_eq_self)

lemma uint8_zero_iff:
  assumes "0 \<le> n" and "n < 256"
  shows "(word_of_int n :: 8 word) = 0 \<longleftrightarrow> n = 0"
proof
  assume "(word_of_int n :: 8 word) = 0"
  then have "uint (word_of_int n :: 8 word) = 0" by simp
  with uint8_of_code [OF assms] show "n = 0" by simp
next
  assume "n = 0"
  then show "(word_of_int n :: 8 word) = 0" by simp
qed

text \<open>
  Claim C9, as amended. On a response of the fixed shape whose result code lies in
  0..255, the range of the \<open>uint8\<close> that \<open>SASLBind\<close> keeps it in, a non-zero
  result code makes \<open>SASLBind\<close> fail with that code and the diagnostic message, and
  a zero result code makes it return the token, the content of the fourth child as
  the buffer gives it: nil when there is no fourth child, and nil as well when the
  fourth child has no content.
\<close>

theorem SASLBind_result:
  assumes "nextMessageID ops l = (messageID, l0)"
    and "sendMessage ops (SASLBind_packet K messageID mechanism credentials) l0 = (Inr msgCtx, l1)"
    and "responses ops msgCtx l1 = (Some (Some p0, None), l2)"
    and "(if Debug ops l2 then addLDAPDescriptions K (Some p0) else Inr (Some p0)) = Inr (Some p)"
    and "sasl_response p = Some (n, d, tok)"
    and "0 \<le> n" and "n < 256"
  shows "SASLBind K ops mechanism credentials l =
           (Return (if n \<noteq> 0 then (None, Some (Error (word_of_int n) d))
                    else ((case tok of
                             None \<Rightarrow> None
                           | Some t \<Rightarrow> if t = [] then None else Some t), None)),
            finishMessage ops msgCtx l2)
         \<and> uint (word_of_int n :: 8 word) = n"
  using SASLBind_after_response [OF assms(1-5)] uint8_zero_iff [OF assms(6,7)]
    uint8_of_code [OF assms(6,7)]
  by (simp add: Buffer_Bytes_def split: option.splits)

lemma stub_sasl:
  "nextMessageID (stub_ops K) l = (counter l + 1, snd (nextMessageID (stub_ops K) l))"
  "sendMessage (stub_ops K) packet l = (Inr (counter l), snd (sendMessage (stub_ops K) packet l))"
  "inbox l = Inr p # xs
     \<Longrightarrow> responses (stub_ops K) msgCtx l = (Some (Some p, None), snd (responses (stub_ops K) msgCtx l))"
  "Debug (stub_ops K) l = debugging l"
  by (simp_all add: stub_ops_def)

lemma stub_sasl_state [simp]:
  "inbox (snd (nextMessageID (stub_ops K) l)) = inbox l"
  "inbox (snd (sendMessage (stub_ops K) packet l)) = inbox l"
  "debugging (snd (nextMessageID (stub_ops K) l)) = debugging l"
  "debugging (snd (sendMessage (stub_ops K) packet l)) = debugging l"
  "debugging (snd (responses (stub_ops K) msgCtx l)) = debugging l"
  by (simp_all add: stub_ops_def split: list.splits sum.splits)

lemma example_sasl_response [simp]:
  "sasl_response (example_response n d tok) = Some (n, d, tok)"
  by (cases tok) (simp_all add: sasl_response_def example_response_def)

lemma stub_sasl_run:
  "(if Debug (stub_ops K)
         (snd (responses (stub_ops K) m
            (snd (sendMessage (stub_ops K) q
               (snd (nextMessageID (stub_ops K) (new_stub_conn [Inr p])))))))
    then addLDAPDescriptions K (Some p) else Inr (Some p)) = Inr (Some p)"
  by (simp add: stub_sasl(4) new_stub_conn_def)

theorem SASLBind_result_witness:
  "sasl_response (example_response 49 ''invalid credentials'' None) =
     Some (49, ''invalid credentials'', None)
   \<and> fst (SASLBind example_env (stub_ops example_env) ''PLAIN'' ''secret''
        (new_stub_conn [Inr (example_response 49 ''invalid credentials'' None)])) =
       Return (None, Some (Error 49 ''invalid credentials''))
   \<and> fst (SASLBind example_env (stub_ops example_env) ''PLAIN'' ''secret''
        (new_stub_conn [Inr (example_response 0 [] (Some ''token''))])) =
       Return (Some ''token'', None)
   \<and> fst (SASLBind example_env (stub_ops example_env) ''PLAIN'' ''secret''
        (new_stub_conn [Inr (example_response 0 [] None)])) =
       Return (None, None)
   \<and> sasl_response (example_response 0 [] (Some [])) = Some (0, [], Some [])
   \<and> fst (SASLBind example_env (stub_ops example_env) ''PLAIN'' ''secret''
        (new_stub_conn [Inr (example_response 0 [] (Some []))])) =
       Return (None, None)"
proof -
  have inbox: "inbox (snd (sendMessage (stub_ops example_env) q
      (snd (nextMessageID (stub_ops example_env) (new_stub_conn [Inr p]))))) = [Inr p]" for p q
    by simp
  note run = SASLBind_result [OF stub_sasl(1) stub_sasl(2) stub_sasl(3) [OF inbox] stub_sasl_run
      example_sasl_response, THEN conjunct1]
  show ?thesis
    using run [of 49 "''PLAIN''" "''secret''" "''invalid credentials''" None]
      run [of 0 "''PLAIN''" "''secret''" "[]" "Some ''token''"]
      run [of 0 "''PLAIN''" "''secret''" "[]" None]
      run [of 0 "''PLAIN''" "''secret''" "[]" "Some []"]
    by simp
qed

text \<open>
  Against claim C9 as stated: a result code is not a failure because it is not zero.
  The server's result code 256 has its low eight bits zero, and \<open>SASLBind\<close>
  returns the token with no error.
\<close>

theorem SASLBind_result_code_256:
  "sasl_response (example_response 256 ''referral'' (Some ''token'')) =
     Some (256, ''referral'', Some ''token'')
   \<and> fst (SASLBind example_env (stub_ops example_env) ''PLAIN'' ''secret''
        (new_stub_conn [Inr (example_response 256 ''referral'' (Some ''token''))])) =
       Return (Some ''token'', None)"
proof -
  have inbox: "inbox (snd (sendMessage (stub_ops example_env) q
      (snd (nextMessageID (stub_ops example_env) (new_stub_conn [Inr p]))))) = [Inr p]" for p q
    by simp
  have z: "(word_of_int 256 :: 8 word) = 0"
    by simp
  note run = SASLBind_after_response [OF stub_sasl(1) stub_sasl(2) stub_sasl(3) [OF inbox]
        stub_sasl_run example_sasl_response]
  show ?thesis
    using run [of "''PLAIN''" "''secret''" 256  "''referral''" "Some ''token''"]
    by (simp add: z Buffer_Bytes_def)
qed

end
